theory Spec2Isabelle
  imports Complex_Main "HOL-Library.Char_ord" "HOL-Library.List_Lexorder"
    "HOL-Library.Product_Lexorder"
begin

section \<open>Data model\<close>

text \<open>
  The in-memory balance table, as it stands after \<open>_preprocess_data\<close>: the six amount
  columns are numbers and the column \<open>nian fen\<close> (year) has been derived from the period.
  Amounts are modelled as real numbers, so a comparison against the tolerance is exact;
  the rounding of binary floating point is not modelled. A text column that pandas read
  as NaN is \<open>None\<close>.
\<close>

record balance_row =
  company :: string
  period :: string
  year :: int
  subject_code :: "string option"
  subject_code_path :: "string option"
  subject_name :: "string option"
  is_dimension_row :: bool
  dimension_name :: "string option"
  opening_debit :: real
  opening_credit :: real
  period_debit :: real
  period_credit :: real
  closing_debit :: real
  closing_credit :: real

text \<open>The strings returned by both \<open>_get_account_type\<close> functions.\<close>

datatype account_type = Asset | Liability | Equity | Income | Expense | Unknown

definition tolerance :: real where
  "tolerance = 1 / 100"

text \<open>The account name of the grand-total row, the two characters "he ji" in UTF-8.\<close>

definition total_marker :: string where
  "total_marker = [CHR 0xE5, CHR 0x90, CHR 0x88, CHR 0xE8, CHR 0xAE, CHR 0xA1]"

section \<open>Python string primitives\<close>

text \<open>\<open>str(x)\<close> of a text cell: the text itself, and \<open>'nan'\<close> for NaN.\<close>

definition py_str :: "string option \<Rightarrow> string" where
  "py_str v = (case v of None \<Rightarrow> ''nan'' | Some s \<Rightarrow> s)"

text \<open>\<open>s.split(sep)\<close> with a one-character separator: never the empty list.\<close>

fun py_split :: "char \<Rightarrow> string \<Rightarrow> string list" where
  "py_split sep [] = [[]]"
| "py_split sep (x # xs) =
     (if x = sep then [] # py_split sep xs
      else (case py_split sep xs of
              [] \<Rightarrow> [[x]]
            | p # ps \<Rightarrow> (x # p) # ps))"

definition startswith :: "string \<Rightarrow> string \<Rightarrow> bool" where
  "startswith s p = (take (length p) s = p)"

section \<open>AccountClassifier\<close>

text \<open>
  The \<open>if\<close>/\<open>elif\<close> chain on the main code, written three times in the source
  (twice in \<open>OpeningBalanceAdjuster._get_account_type\<close>, once in
  \<open>FinancialDataValidator._get_account_type\<close>); \<open>None\<close> when no branch matches.
\<close>

definition leading_digit_type :: "string \<Rightarrow> account_type option" where
  "leading_digit_type code =
     (if startswith code ''1'' then Some Asset
      else if startswith code ''2'' then Some Liability
      else if startswith code ''3'' then Some Equity
      else if startswith code ''4'' then Some Income
      else if startswith code ''5'' \<or> startswith code ''6'' then Some Expense
      else None)"

text \<open>
  \<open>OpeningBalanceAdjuster._get_account_type(row)\<close>: the first \<open>if\<close> has no
  \<open>else\<close>, so a code that matches no branch falls through to the path.
\<close>

definition adjuster_get_account_type :: "balance_row \<Rightarrow> account_type" where
  "adjuster_get_account_type row =
     (let code_str = py_str (subject_code row);
          from_code =
            (if code_str \<noteq> ''nan'' \<and> code_str \<noteq> ''''
             then leading_digit_type (hd (py_split CHR ''.'' code_str))
             else None)
      in case from_code of
           Some t \<Rightarrow> t
         | None \<Rightarrow>
             (let path_str = py_str (subject_code_path row)
              in if path_str \<noteq> ''nan'' \<and> path_str \<noteq> ''''
                 then (case filter (\<lambda>part. part \<noteq> []) (py_split CHR ''/'' path_str) of
                         [] \<Rightarrow> Unknown
                       | main_code # _ \<Rightarrow>
                           (case leading_digit_type main_code of
                              Some t \<Rightarrow> t
                            | None \<Rightarrow> Unknown))
                 else Unknown))"

text \<open>\<open>FinancialDataValidator._get_account_type(subject_code)\<close>: the code only.\<close>

definition validator_get_account_type :: "string option \<Rightarrow> account_type" where
  "validator_get_account_type code =
     (case leading_digit_type (hd (py_split CHR ''.'' (py_str code))) of
        Some t \<Rightarrow> t
      | None \<Rightarrow> Unknown)"

section \<open>BalanceArithmetic\<close>

text \<open>The words of the specification: the normal side and the net of a pair on a side.\<close>

datatype side = Debit | Credit

definition spec_normal_side :: "account_type \<Rightarrow> side" where
  "spec_normal_side t = (if t \<in> {Liability, Equity, Income} then Credit else Debit)"

definition spec_net :: "real \<times> real \<Rightarrow> side \<Rightarrow> real" where
  "spec_net pair s = (case s of Debit \<Rightarrow> fst pair - snd pair | Credit \<Rightarrow> snd pair - fst pair)"

text \<open>
  The second \<open>if\<close> chain of \<open>_calculate_opening_balance\<close> (the assignment of the
  opening net to a debit or a credit amount); \<open>None\<close> is its \<open>else\<close> branch, where
  the function logs a warning and returns the stored pair.
\<close>

definition to_pair :: "account_type \<Rightarrow> real \<Rightarrow> (real \<times> real) option" where
  "to_pair account_type opening_net =
     (if account_type = Asset then
        (if opening_net \<ge> 0 then Some (opening_net, 0) else Some (0, - opening_net))
      else if account_type \<in> {Liability, Equity} then
        (if opening_net \<ge> 0 then Some (0, opening_net) else Some (- opening_net, 0))
      else if account_type = Income then
        (if opening_net \<ge> 0 then Some (0, opening_net) else Some (- opening_net, 0))
      else if account_type = Expense then
        (if opening_net \<ge> 0 then Some (opening_net, 0) else Some (0, - opening_net))
      else None)"

datatype log_entry =
    UnknownTypeWarning "string option"
  | Adjusted nat account_type real real real real

text \<open>
  \<open>_calculate_opening_balance(row)\<close>: the derived opening pair and what it logs.
\<close>

definition calculate_opening_balance :: "balance_row \<Rightarrow> (real \<times> real) \<times> log_entry list" where
  "calculate_opening_balance row =
     (let account_type = adjuster_get_account_type row;
          (closing_net, period_net) =
            (if account_type = Asset then
               (closing_debit row - closing_credit row, period_debit row - period_credit row)
             else if account_type \<in> {Liability, Equity} then
               (closing_credit row - closing_debit row, period_credit row - period_debit row)
             else if account_type = Income then
               (closing_credit row - closing_debit row, period_credit row - period_debit row)
             else if account_type = Expense then
               (closing_debit row - closing_credit row, period_debit row - period_credit row)
             else
               (closing_debit row - closing_credit row, period_debit row - period_credit row));
          opening_net = closing_net - period_net
      in case to_pair account_type opening_net of
           Some pair \<Rightarrow> (pair, [])
         | None \<Rightarrow> ((opening_debit row, opening_credit row),
                     [UnknownTypeWarning (subject_code row)]))"

section \<open>OpeningBalanceSolver\<close>

text \<open>The state of an \<open>OpeningBalanceAdjuster\<close> during \<open>adjust_opening_balances\<close>:
  the table, the counter \<open>adjustments_made\<close> and what the logger received.\<close>

record adjuster =
  balance_df :: "balance_row list"
  adjustments_made :: nat
  logged :: "log_entry list"

definition target_years :: "int list" where
  "target_years = [2024, 2025]"

text \<open>
  One iteration of the loop of \<open>adjust_opening_balances\<close>. The row \<open>row\<close> is read from
  the copy \<open>target_rows\<close>; the write goes to \<open>self.balance_df.loc[idx, ...]\<close>.
\<close>

definition adjust_row :: "nat \<times> balance_row \<Rightarrow> adjuster \<Rightarrow> adjuster" where
  "adjust_row ir st =
     (let idx = fst ir; row = snd ir in
      if subject_name row = Some total_marker then st
      else
        (let ((new_opening_debit, new_opening_credit), warnings) = calculate_opening_balance row;
             st1 = st\<lparr>logged := logged st @ warnings\<rparr>;
             current_opening_debit = opening_debit row;
             current_opening_credit = opening_credit row;
             needs_adjustment =
               (\<bar>new_opening_debit - current_opening_debit\<bar> > tolerance
                \<or> \<bar>new_opening_credit - current_opening_credit\<bar> > tolerance)
         in if needs_adjustment then
              st1\<lparr>balance_df :=
                     (balance_df st1)[idx := (balance_df st1 ! idx)
                        \<lparr>opening_debit := new_opening_debit,
                         opening_credit := new_opening_credit\<rparr>],
                   adjustments_made := adjustments_made st1 + 1,
                   logged := logged st1 @ [Adjusted idx (adjuster_get_account_type row)
                            current_opening_debit new_opening_debit
                            current_opening_credit new_opening_credit]\<rparr>
            else st1))"

text \<open>\<open>df[mask]\<close> with the rows' index labels, for the mask \<open>year in target_years\<close>.\<close>

definition target_rows_of :: "balance_row list \<Rightarrow> (nat \<times> balance_row) list" where
  "target_rows_of df = filter (\<lambda>ir. year (snd ir) \<in> set target_years) (enumerate 0 df)"

definition adjust_opening_balances :: "balance_row list \<Rightarrow> adjuster" where
  "adjust_opening_balances df =
     fold adjust_row (target_rows_of df) \<lparr>balance_df = df, adjustments_made = 0, logged = []\<rparr>"

text \<open>Results of a check: the counters and the collected errors.\<close>

record 'e results =
  passed :: nat
  failed :: nat
  errors :: "'e list"

text \<open>
  An identity violation: the row, its type, opening, period and closing net, the expected
  closing net and the difference (the values formatted into the message).
\<close>

datatype equation_error =
  EquationError balance_row account_type real real real real real

datatype py_error = UnboundLocalError | IOError

text \<open>
  The loop of \<open>verify_adjustments\<close>. The three nets are local variables of the method:
  no branch of the chain assigns them for an unknown type, so they keep the values of
  the previous iteration, and reading them before any assignment raises. The first
  argument is the value of the three locals, \<open>None\<close> while they are unbound.
\<close>

fun verify_rows ::
  "(real \<times> real \<times> real) option \<Rightarrow> equation_error results \<Rightarrow> balance_row list
     \<Rightarrow> py_error + equation_error results" where
  "verify_rows nets res [] = Inr res"
| "verify_rows nets res (row # rows) =
     (let account_type = adjuster_get_account_type row;
          nets' =
            (if account_type = Asset then
               Some (opening_debit row - opening_credit row,
                     period_debit row - period_credit row,
                     closing_debit row - closing_credit row)
             else if account_type \<in> {Liability, Equity} then
               Some (opening_credit row - opening_debit row,
                     period_credit row - period_debit row,
                     closing_credit row - closing_debit row)
             else if account_type = Income then
               Some (opening_credit row - opening_debit row,
                     period_credit row - period_debit row,
                     closing_credit row - closing_debit row)
             else if account_type = Expense then
               Some (opening_debit row - opening_credit row,
                     period_debit row - period_credit row,
                     closing_debit row - closing_credit row)
             else nets)
      in case nets' of
           None \<Rightarrow> Inl UnboundLocalError
         | Some (opening_net, period_net, closing_net) \<Rightarrow>
             (let expected_closing = opening_net + period_net in
              if \<bar>closing_net - expected_closing\<bar> > tolerance then
                verify_rows nets'
                  (res\<lparr>errors := errors res @ [EquationError row account_type opening_net
                          period_net closing_net expected_closing
                          (closing_net - expected_closing)],
                       failed := failed res + 1\<rparr>) rows
              else verify_rows nets' (res\<lparr>passed := passed res + 1\<rparr>) rows))"

definition verify_adjustments :: "balance_row list \<Rightarrow> py_error + equation_error results" where
  "verify_adjustments df =
     verify_rows None \<lparr>passed = 0, failed = 0, errors = []\<rparr>
       (filter (\<lambda>row. year row \<in> set target_years) df)"

text \<open>
  What the file system does during one run: nothing goes wrong; \<open>load_data\<close> raises;
  \<open>to_csv\<close> raises, leaving the given table in \<open>original_file\<close>; or the table is
  written and \<open>_generate_adjustment_report\<close> raises.
\<close>

datatype io_outcome = IoOk | LoadFails | WriteFails "balance_row list" | ReportFails

text \<open>
  \<open>save_adjusted_data\<close>: the table is written first and the report after it, inside one
  \<open>try\<close> whose handler re-raises. The result and the table stored afterwards.
\<close>

definition save_adjusted_data ::
  "io_outcome \<Rightarrow> balance_row list \<Rightarrow> (py_error + unit) \<times> balance_row list" where
  "save_adjusted_data io df =
     (case io of
        WriteFails partial \<Rightarrow> (Inl IOError, partial)
      | ReportFails \<Rightarrow> (Inl IOError, df)
      | _ \<Rightarrow> (Inr (), df))"

text \<open>
  \<open>run_adjustment\<close>, on the table stored in \<open>original_file\<close>: the returned flag and
  the table stored afterwards. \<open>load_data\<close> reads the stored table (and copies the file
  to a backup). Every exception inside the \<open>try\<close> block returns \<open>False\<close>.
\<close>

definition run_adjustment :: "io_outcome \<Rightarrow> balance_row list \<Rightarrow> bool \<times> balance_row list" where
  "run_adjustment io stored =
     (if io = LoadFails then (False, stored)
      else
        (let st = adjust_opening_balances stored in
         if adjustments_made st = 0 then (True, stored)
         else
           (case verify_adjustments (balance_df st) of
              Inl e \<Rightarrow> (False, stored)
            | Inr verification_results \<Rightarrow>
                if failed verification_results > 0 then (False, stored)
                else
                  (case save_adjusted_data io (balance_df st) of
                     (Inl e, file) \<Rightarrow> (False, file)
                   | (Inr u, file) \<Rightarrow> (True, file)))))"

section \<open>FinancialDataValidator\<close>

text \<open>
  A row of the voucher table: the company, the cell of the fiscal-year column as text,
  the account code and the two amounts (numbers after \<open>_preprocess_data\<close>).
\<close>

record voucher_row =
  voucher_company :: string
  fiscal_year :: string
  voucher_subject_code :: "string option"
  debit_amount :: real
  credit_amount :: real

text \<open>The field names of the hierarchy checks (Chinese labels in the source).\<close>

datatype check_field =
    OpeningNet | PeriodNet | ClosingNet
  | OpeningDebit | OpeningCredit | PeriodDebit | PeriodCredit | ClosingDebit | ClosingCredit

text \<open>
  The error dictionaries, one constructor for each value of their key \<open>type\<close>:
  \<^item> accounting equation: the row, its type, opening, period, closing and expected closing
    net, and the difference;
  \<^item> year continuity: code, company, previous and current year, previous closing debit
    and credit, current opening debit and credit;
  \<^item> hierarchy: parent code, its type, company, period, field, parent value, child sum,
    difference;
  \<^item> voucher reconciliation: the balance row, voucher debit and credit, balance debit and
    credit, debit and credit difference.
\<close>

datatype validation_error =
    AccountingEquation balance_row account_type real real real real real
  | YearContinuity string string int int real real real real
  | HierarchyCorrectness string account_type string string check_field real real real
  | VoucherReconciliation balance_row real real real real real real

record validator =
  val_balance_df :: "balance_row list"
  voucher_df :: "voucher_row list"
  validation_results :: "string \<rightharpoonup> validation_error results"

definition no_results :: "validation_error results" where
  "no_results = \<lparr>passed = 0, failed = 0, errors = []\<rparr>"

text \<open>
  \<open>df.groupby(keys)\<close>: the groups in ascending order of their key, each with its rows
  in table order; a row with a NaN key (\<open>None\<close>) is in no group.
\<close>

definition groupby :: "('a \<Rightarrow> 'k::linorder option) \<Rightarrow> 'a list \<Rightarrow> ('k \<times> 'a list) list" where
  "groupby key rows =
     map (\<lambda>k. (k, filter (\<lambda>r. key r = Some k) rows))
       (sort (remdups (List.map_filter key rows)))"

subsection \<open>Accounting equation\<close>

text \<open>The body of the loop of \<open>validate_accounting_equation\<close>.\<close>

definition check_equation_row ::
  "balance_row \<Rightarrow> validation_error results \<Rightarrow> validation_error results" where
  "check_equation_row row res =
     (let account_type = validator_get_account_type (subject_code row);
          nets =
            (if account_type = Asset then
               Some (opening_debit row - opening_credit row,
                     period_debit row - period_credit row,
                     closing_debit row - closing_credit row)
             else if account_type \<in> {Liability, Equity} then
               Some (opening_credit row - opening_debit row,
                     period_credit row - period_debit row,
                     closing_credit row - closing_debit row)
             else if account_type = Income then
               Some (opening_credit row - opening_debit row,
                     period_credit row - period_debit row,
                     closing_credit row - closing_debit row)
             else if account_type = Expense then
               Some (opening_debit row - opening_credit row,
                     period_debit row - period_credit row,
                     closing_debit row - closing_credit row)
             else None)
      in case nets of
           None \<Rightarrow> res
         | Some (opening_net, period_net, closing_net) \<Rightarrow>
             (let expected_closing = opening_net + period_net in
              if \<bar>closing_net - expected_closing\<bar> > tolerance then
                res\<lparr>errors := errors res @ [AccountingEquation row account_type opening_net
                        period_net closing_net expected_closing
                        (closing_net - expected_closing)],
                    failed := failed res + 1\<rparr>
              else res\<lparr>passed := passed res + 1\<rparr>))"

definition validate_accounting_equation ::
  "validator \<Rightarrow> validation_error results \<times> validator" where
  "validate_accounting_equation self =
     (let results = fold check_equation_row (val_balance_df self) no_results
      in (results,
          self\<lparr>validation_results :=
                 (validation_results self)(''accounting_equation'' \<mapsto> results)\<rparr>))"

subsection \<open>Year continuity\<close>

text \<open>
  One step of the inner loop of \<open>validate_year_continuity\<close>, on the rows at positions
  \<open>i - 1\<close> and \<open>i\<close> of the sorted group.
\<close>

definition check_continuity_pair ::
  "string \<times> string \<Rightarrow> balance_row \<times> balance_row
     \<Rightarrow> validation_error results \<Rightarrow> validation_error results" where
  "check_continuity_pair key pc res =
     (let prev_year = fst pc; curr_year = snd pc in
      if year curr_year \<noteq> year prev_year + 1 then res
      else
        (let prev_closing_debit = closing_debit prev_year;
             prev_closing_credit = closing_credit prev_year;
             curr_opening_debit = opening_debit curr_year;
             curr_opening_credit = opening_credit curr_year;
             debit_match = (\<bar>prev_closing_debit - curr_opening_debit\<bar> \<le> tolerance);
             credit_match = (\<bar>prev_closing_credit - curr_opening_credit\<bar> \<le> tolerance)
         in if \<not> (debit_match \<and> credit_match) then
              res\<lparr>errors := errors res @ [YearContinuity (snd key) (fst key)
                      (year prev_year) (year curr_year)
                      prev_closing_debit prev_closing_credit
                      curr_opening_debit curr_opening_credit],
                  failed := failed res + 1\<rparr>
            else res\<lparr>passed := passed res + 1\<rparr>))"

text \<open>
  The body of the outer loop: \<open>sort_values\<close> on the year is modelled as the stable sort
  (pandas leaves the order of rows of one year open).
\<close>

definition check_continuity_group ::
  "(string \<times> string) \<times> balance_row list
     \<Rightarrow> validation_error results \<Rightarrow> validation_error results" where
  "check_continuity_group kg res =
     (let group = sort_key year (snd kg) in
      if length group < 2 then res
      else fold (check_continuity_pair (fst kg)) (zip group (tl group)) res)"

definition validate_year_continuity ::
  "validator \<Rightarrow> validation_error results \<times> validator" where
  "validate_year_continuity self =
     (let grouped = groupby (\<lambda>r. map_option (\<lambda>c. (company r, c)) (subject_code r))
                      (val_balance_df self);
          results = fold check_continuity_group grouped no_results
      in (results,
          self\<lparr>validation_results :=
                 (validation_results self)(''year_continuity'' \<mapsto> results)\<rparr>))"

subsection \<open>Hierarchy\<close>

text \<open>\<open>sep.join(parts)\<close> and \<open>max(xs, key=len)\<close> (the first of the longest).\<close>

fun py_join :: "string \<Rightarrow> string list \<Rightarrow> string" where
  "py_join sep [] = []"
| "py_join sep [p] = p"
| "py_join sep (p # q # ps) = p @ sep @ py_join sep (q # ps)"

definition max_by_len :: "string list \<Rightarrow> string" where
  "max_by_len xs = fold (\<lambda>x best. if length x > length best then x else best) (tl xs) (hd xs)"

text \<open>The dictionary \<open>tree\<close>, in insertion order: appending a child under a parent.\<close>

definition tree_append ::
  "(string \<times> balance_row list) list \<Rightarrow> string \<Rightarrow> balance_row
     \<Rightarrow> (string \<times> balance_row list) list" where
  "tree_append tree parent_code row =
     (let tree' = (if parent_code \<notin> fst ` set tree then tree @ [(parent_code, [])] else tree)
      in map (\<lambda>kv. if fst kv = parent_code then (fst kv, snd kv @ [row]) else kv) tree')"

definition parent_candidates_of :: "balance_row list \<Rightarrow> balance_row \<Rightarrow> string list" where
  "parent_candidates_of df row =
     (let parts = py_split CHR ''.'' (py_str (subject_code row)) in
      filter (\<lambda>parent_code. parent_code \<in> set (map (\<lambda>r. py_str (subject_code r)) df))
        (map (\<lambda>i. py_join ''.'' (take i parts)) [1..<length parts]))"

definition build_subject_tree :: "balance_row list \<Rightarrow> (string \<times> balance_row list) list" where
  "build_subject_tree df =
     fold (\<lambda>row tree.
            (let parent_candidates = parent_candidates_of df row in
             if parent_candidates \<noteq> []
             then tree_append tree (max_by_len parent_candidates) row
             else tree))
       df []"

text \<open>The list \<open>checks\<close> built for one parent: field, parent value, child sum.\<close>

definition hierarchy_checks ::
  "account_type \<Rightarrow> balance_row \<Rightarrow> balance_row list \<Rightarrow> (check_field \<times> real \<times> real) list" where
  "hierarchy_checks parent_account_type parent_row children =
     (let child_debit_open = sum_list (map opening_debit children);
          child_credit_open = sum_list (map opening_credit children);
          child_debit_current = sum_list (map period_debit children);
          child_credit_current = sum_list (map period_credit children);
          child_debit_close = sum_list (map closing_debit children);
          child_credit_close = sum_list (map closing_credit children)
      in if parent_account_type \<in> {Asset, Expense} then
           [(OpeningNet, opening_debit parent_row - opening_credit parent_row,
               child_debit_open - child_credit_open),
            (PeriodNet, period_debit parent_row - period_credit parent_row,
               child_debit_current - child_credit_current),
            (ClosingNet, closing_debit parent_row - closing_credit parent_row,
               child_debit_close - child_credit_close)]
         else if parent_account_type \<in> {Liability, Equity, Income} then
           [(OpeningNet, opening_credit parent_row - opening_debit parent_row,
               child_credit_open - child_debit_open),
            (PeriodNet, period_credit parent_row - period_debit parent_row,
               child_credit_current - child_debit_current),
            (ClosingNet, closing_credit parent_row - closing_debit parent_row,
               child_credit_close - child_debit_close)]
         else
           [(OpeningDebit, opening_debit parent_row, child_debit_open),
            (OpeningCredit, opening_credit parent_row, child_credit_open),
            (PeriodDebit, period_debit parent_row, child_debit_current),
            (PeriodCredit, period_credit parent_row, child_credit_current),
            (ClosingDebit, closing_debit parent_row, child_debit_close),
            (ClosingCredit, closing_credit parent_row, child_credit_close)])"

definition run_check ::
  "string \<Rightarrow> account_type \<Rightarrow> string \<Rightarrow> string \<Rightarrow> check_field \<times> real \<times> real
     \<Rightarrow> validation_error results \<Rightarrow> validation_error results" where
  "run_check parent_code parent_account_type grp_company grp_period chk res =
     (let field = fst chk; parent_val = fst (snd chk); child_sum = snd (snd chk) in
      if \<bar>parent_val - child_sum\<bar> > tolerance then
        res\<lparr>errors := errors res @ [HierarchyCorrectness parent_code parent_account_type
                grp_company grp_period field parent_val child_sum (parent_val - child_sum)],
            failed := failed res + 1\<rparr>
      else res\<lparr>passed := passed res + 1\<rparr>)"

text \<open>The body of the loop over \<open>subject_tree.items()\<close>.\<close>

definition check_parent ::
  "string \<Rightarrow> string \<Rightarrow> balance_row list \<Rightarrow> string \<times> balance_row list
     \<Rightarrow> validation_error results \<Rightarrow> validation_error results" where
  "check_parent grp_company grp_period period_group pc res =
     (let parent_code = fst pc; children = snd pc in
      if Some parent_code \<notin> set (map subject_code period_group) then res
      else
        (case filter (\<lambda>r. subject_code r = Some parent_code) period_group of
           [] \<Rightarrow> res
         | parent_row # _ \<Rightarrow>
             (let parent_account_type = validator_get_account_type (Some parent_code)
              in fold (run_check parent_code parent_account_type grp_company grp_period)
                   (hierarchy_checks parent_account_type parent_row children) res)))"

definition check_period_group ::
  "(string \<times> string) \<times> balance_row list
     \<Rightarrow> validation_error results \<Rightarrow> validation_error results" where
  "check_period_group kg res =
     (let grp_company = fst (fst kg); grp_period = snd (fst kg); period_group = snd kg in
      fold (check_parent grp_company grp_period period_group) (build_subject_tree period_group) res)"

definition validate_hierarchy_correctness ::
  "validator \<Rightarrow> validation_error results \<times> validator" where
  "validate_hierarchy_correctness self =
     (let non_dimension_df = filter (\<lambda>r. \<not> is_dimension_row r) (val_balance_df self);
          grouped = groupby (\<lambda>r. Some (company r, period r)) non_dimension_df;
          results = fold check_period_group grouped no_results
      in (results,
          self\<lparr>validation_results :=
                 (validation_results self)(''hierarchy_correctness'' \<mapsto> results)\<rparr>))"

subsection \<open>Voucher reconciliation\<close>

text \<open>A row of \<open>voucher_summary\<close>: company, fiscal year, code, summed debit and credit.\<close>

record summary_row =
  summary_company :: string
  summary_year :: int
  summary_code :: string
  summary_debit :: real
  summary_credit :: real

text \<open>
  The grouped sums, then the fiscal-year column as a number: the commas are removed and
  the remaining text is converted by \<open>to_int\<close>, which stands for pandas' conversion
  \<open>.astype(float).astype(int)\<close> and is a parameter of the model.
\<close>

definition voucher_summary_of :: "(string \<Rightarrow> int) \<Rightarrow> voucher_row list \<Rightarrow> summary_row list" where
  "voucher_summary_of to_int vouchers =
     map (\<lambda>kg. (case fst kg of (vcompany, label, code) \<Rightarrow>
            \<lparr>summary_company = vcompany,
             summary_year = to_int (filter (\<lambda>ch. ch \<noteq> CHR '','') label),
             summary_code = code,
             summary_debit = sum_list (map debit_amount (snd kg)),
             summary_credit = sum_list (map credit_amount (snd kg))\<rparr>))
       (groupby (\<lambda>v. map_option (\<lambda>c. (voucher_company v, fiscal_year v, c))
                        (voucher_subject_code v)) vouchers)"

text \<open>
  \<open>merged_df\<close> after the year filter: the inner join on company and code of the summary
  with the balance rows whose code occurs in the vouchers, restricted to the two years
  written in the source.
\<close>

definition merged_rows ::
  "(string \<Rightarrow> int) \<Rightarrow> validator \<Rightarrow> (summary_row \<times> balance_row) list" where
  "merged_rows to_int self =
     (let voucher_summary = voucher_summary_of to_int (voucher_df self);
          voucher_subjects = set (map summary_code voucher_summary);
          balance_filtered = filter (\<lambda>b. py_str (subject_code b) \<in> voucher_subjects)
                               (val_balance_df self);
          merged_df = concat (map (\<lambda>v. map (\<lambda>b. (v, b))
                        (filter (\<lambda>b. company b = summary_company v
                                    \<and> subject_code b = Some (summary_code v))
                           balance_filtered)) voucher_summary)
      in filter (\<lambda>vb. (summary_year (fst vb) = 2024 \<and> year (snd vb) = 2024)
                     \<or> (summary_year (fst vb) = 2025 \<and> year (snd vb) = 2025)) merged_df)"

definition check_voucher_row ::
  "summary_row \<times> balance_row \<Rightarrow> validation_error results \<Rightarrow> validation_error results" where
  "check_voucher_row vb res =
     (let v = fst vb; b = snd vb;
          debit_diff = \<bar>summary_debit v - period_debit b\<bar>;
          credit_diff = \<bar>summary_credit v - period_credit b\<bar>
      in if debit_diff > tolerance \<or> credit_diff > tolerance then
           res\<lparr>errors := errors res @ [VoucherReconciliation b
                   (summary_debit v) (summary_credit v) (period_debit b) (period_credit b)
                   (summary_debit v - period_debit b) (summary_credit v - period_credit b)],
               failed := failed res + 1\<rparr>
         else res\<lparr>passed := passed res + 1\<rparr>)"

definition validate_voucher_reconciliation ::
  "(string \<Rightarrow> int) \<Rightarrow> validator \<Rightarrow> validation_error results \<times> validator" where
  "validate_voucher_reconciliation to_int self =
     (let results = fold check_voucher_row (merged_rows to_int self) no_results
      in (results,
          self\<lparr>validation_results :=
                 (validation_results self)(''voucher_reconciliation'' \<mapsto> results)\<rparr>))"

section \<open>Specification-side predicates and test data\<close>

text \<open>
  The identity of the specification for a row of type \<open>t\<close>: the three nets on the normal
  side of \<open>t\<close>, and the violation \<open>|closingNet - (openingNet + periodNet)| > 0.01\<close>.
\<close>

definition spec_opening_net :: "account_type \<Rightarrow> balance_row \<Rightarrow> real" where
  "spec_opening_net t row = spec_net (opening_debit row, opening_credit row) (spec_normal_side t)"

definition spec_period_net :: "account_type \<Rightarrow> balance_row \<Rightarrow> real" where
  "spec_period_net t row = spec_net (period_debit row, period_credit row) (spec_normal_side t)"

definition spec_closing_net :: "account_type \<Rightarrow> balance_row \<Rightarrow> real" where
  "spec_closing_net t row = spec_net (closing_debit row, closing_credit row) (spec_normal_side t)"

definition spec_identity_violated :: "account_type \<Rightarrow> balance_row \<Rightarrow> bool" where
  "spec_identity_violated t row =
     (\<bar>spec_closing_net t row - (spec_opening_net t row + spec_period_net t row)\<bar> > 1 / 100)"

text \<open>A balance row from company, period, year, code, path and the three pairs.\<close>

definition example_row ::
  "string \<Rightarrow> string \<Rightarrow> int \<Rightarrow> string option \<Rightarrow> string option
     \<Rightarrow> real \<times> real \<Rightarrow> real \<times> real \<Rightarrow> real \<times> real \<Rightarrow> balance_row" where
  "example_row c p y code path opening current closing =
     \<lparr>company = c, period = p, year = y, subject_code = code, subject_code_path = path,
      subject_name = Some ''cash'', is_dimension_row = False, dimension_name = None,
      opening_debit = fst opening, opening_credit = snd opening,
      period_debit = fst current, period_credit = snd current,
      closing_debit = fst closing, closing_credit = snd closing\<rparr>"

definition example_validator :: "balance_row list \<Rightarrow> validator" where
  "example_validator rows =
     \<lparr>val_balance_df = rows, voucher_df = [], validation_results = Map.empty\<rparr>"



text \<open>The rows the validator classifies, and the specification's verdict on a row.\<close>

definition classified :: "balance_row \<Rightarrow> bool" where
  "classified row =
     (validator_get_account_type (subject_code row) \<in> {Asset, Liability, Equity, Income, Expense})"

definition spec_row_violates :: "balance_row \<Rightarrow> bool" where
  "spec_row_violates row =
     spec_identity_violated (validator_get_account_type (subject_code row)) row"

definition spec_equation_error :: "balance_row \<Rightarrow> validation_error" where
  "spec_equation_error row =
     (let t = validator_get_account_type (subject_code row) in
      AccountingEquation row t (spec_opening_net t row) (spec_period_net t row)
        (spec_closing_net t row) (spec_opening_net t row + spec_period_net t row)
        (spec_closing_net t row - (spec_opening_net t row + spec_period_net t row)))"


text \<open>
  The value of the three local nets of \<open>verify_adjustments\<close> after the chain of one
  iteration: those of the row when its type is classified, the carried ones otherwise.
\<close>

definition carried_nets ::
  "(real \<times> real \<times> real) option \<Rightarrow> balance_row \<Rightarrow> (real \<times> real \<times> real) option" where
  "carried_nets nets row =
     (let t = adjuster_get_account_type row in
      if t = Unknown then nets
      else Some (spec_opening_net t row, spec_period_net t row, spec_closing_net t row))"

text \<open>
  Tables for \<open>run_adjustment\<close>, all of the year 2024: one asset row with a wrong
  opening pair; the same row followed by an unbalanced grand-total row; that
  grand-total row alone; one unbalanced row of unknown type; the asset row followed by
  the unknown row; and one asset row whose opening pair is within 0.01 of the derived
  pair on each side while its nets differ by 1/64 (all amounts are binary fractions).
\<close>

definition run_example_ok :: "balance_row list" where
  "run_example_ok =
     [example_row ''A'' ''2024'' 2024 (Some ''1001'') None (0, 0) (0, 0) (100, 0)]"

definition total_row_example :: balance_row where
  "total_row_example =
     (example_row ''A'' ''2024'' 2024 (Some ''1002'') None (0, 0) (0, 0) (70, 0))
       \<lparr>subject_name := Some total_marker\<rparr>"

definition run_example_total :: "balance_row list" where
  "run_example_total =
     [example_row ''A'' ''2024'' 2024 (Some ''1001'') None (0, 0) (0, 0) (100, 0),
      total_row_example]"

definition run_example_unknown :: "balance_row list" where
  "run_example_unknown =
     [example_row ''A'' ''2024'' 2024 (Some ''9999'') None (0, 0) (0, 0) (100, 0)]"

definition run_example_stale :: "balance_row list" where
  "run_example_stale =
     [example_row ''A'' ''2024'' 2024 (Some ''1001'') None (0, 0) (0, 0) (100, 0),
      example_row ''A'' ''2024'' 2024 (Some ''9999'') None (0, 0) (0, 0) (100, 0)]"

definition run_example_near :: "balance_row list" where
  "run_example_near =
     [example_row ''A'' ''2024'' 2024 (Some ''1001'') None
        (100 - 1 / 128, 1 / 128) (0, 0) (100, 0)]"

text \<open>
  The classification of the specification, from code and path: the first character of
  the code's leading dot-segment; the path's first non-empty slash-segment only when
  the code is blank; unknown otherwise.
\<close>

definition spec_classification :: "balance_row \<Rightarrow> account_type" where
  "spec_classification row =
     (let code = py_str (subject_code row); path = py_str (subject_code_path row) in
      if code \<noteq> ''nan'' \<and> code \<noteq> [] then
        (case leading_digit_type (hd (py_split CHR ''.'' code)) of
           Some t \<Rightarrow> t | None \<Rightarrow> Unknown)
      else if path \<noteq> ''nan'' \<and> path \<noteq> [] then
        (case filter (\<lambda>part. part \<noteq> []) (py_split CHR ''/'' path) of
           [] \<Rightarrow> Unknown
         | seg # _ \<Rightarrow> (case leading_digit_type seg of Some t \<Rightarrow> t | None \<Rightarrow> Unknown))
      else Unknown)"

text \<open>
  A dimension row of 2024 with a blank code, the path /1221/1221.01/ and nets that do
  not balance.
\<close>

definition blank_code_example :: balance_row where
  "blank_code_example =
     (example_row ''A'' ''2024'' 2024 None (Some ''/1221/1221.01/'') (0, 0) (0, 0) (100, 0))
       \<lparr>is_dimension_row := True, dimension_name := Some ''customer''\<rparr>"

text \<open>
  Year continuity: company A, account 1002, closing pair (500, 0) in 2023 and the opening
  pair \<open>(x, 0)\<close> in 2024; and the same account in 2022 and 2024 only.
\<close>

definition continuity_example :: "real \<Rightarrow> balance_row list" where
  "continuity_example x =
     [example_row ''A'' ''2023'' 2023 (Some ''1002'') None (0, 0) (500, 0) (500, 0),
      example_row ''A'' ''2024'' 2024 (Some ''1002'') None (x, 0) (0, 0) (x, 0)]"

definition continuity_gap_example :: "balance_row list" where
  "continuity_gap_example =
     [example_row ''A'' ''2022'' 2022 (Some ''1002'') None (0, 0) (500, 0) (500, 0),
      example_row ''A'' ''2024'' 2024 (Some ''1002'') None (480, 0) (0, 0) (480, 0)]"

text \<open>A row of 2024 with the code 9999, whose nets do not balance.\<close>

definition unknown_example :: balance_row where
  "unknown_example =
     example_row ''A'' ''2024'' 2024 (Some ''9999'') None (0, 0) (0, 0) (100, 0)"

text \<open>
  The specification's comparison for a parent of type \<open>t\<close>: at each of the three stages
  the parent's net and the net of the summed child debits and credits, on the normal
  side of \<open>t\<close>, agree within 0.01.
\<close>

definition spec_child_net ::
  "account_type \<Rightarrow> (balance_row \<Rightarrow> real) \<Rightarrow> (balance_row \<Rightarrow> real) \<Rightarrow> balance_row list \<Rightarrow> real" where
  "spec_child_net t debit_of credit_of children =
     spec_net (sum_list (map debit_of children), sum_list (map credit_of children))
       (spec_normal_side t)"

definition spec_stage_nets_agree :: "account_type \<Rightarrow> balance_row \<Rightarrow> balance_row list \<Rightarrow> bool" where
  "spec_stage_nets_agree t parent children =
     (\<bar>spec_opening_net t parent - spec_child_net t opening_debit opening_credit children\<bar>
        \<le> 1 / 100
      \<and> \<bar>spec_period_net t parent - spec_child_net t period_debit period_credit children\<bar>
        \<le> 1 / 100
      \<and> \<bar>spec_closing_net t parent - spec_child_net t closing_debit closing_credit children\<bar>
        \<le> 1 / 100)"

text \<open>
  A parent with two children whose amounts cancel: the parent states the net (100, 0),
  the children carry (150, 0) and (0, 50). The argument is the main code.
\<close>

definition hierarchy_parent :: "string \<Rightarrow> balance_row" where
  "hierarchy_parent code =
     example_row ''A'' ''2024'' 2024 (Some code) None (0, 0) (100, 0) (100, 0)"

definition hierarchy_children :: "string \<Rightarrow> balance_row list" where
  "hierarchy_children code =
     [example_row ''A'' ''2024'' 2024 (Some (code @ ''.01'')) None (0, 0) (150, 0) (150, 0),
      example_row ''A'' ''2024'' 2024 (Some (code @ ''.02'')) None (0, 0) (0, 50) (0, 50)]"

definition hierarchy_example :: "string \<Rightarrow> validator" where
  "hierarchy_example code = example_validator (hierarchy_parent code # hierarchy_children code)"

text \<open>The specification's verdict on a joined pair of the voucher reconciliation.\<close>

definition voucher_mismatch :: "summary_row \<times> balance_row \<Rightarrow> bool" where
  "voucher_mismatch vb =
     (\<bar>summary_debit (fst vb) - period_debit (snd vb)\<bar> > 1 / 100
      \<or> \<bar>summary_credit (fst vb) - period_credit (snd vb)\<bar> > 1 / 100)"

definition spec_voucher_error :: "summary_row \<times> balance_row \<Rightarrow> validation_error" where
  "spec_voucher_error vb =
     VoucherReconciliation (snd vb) (summary_debit (fst vb)) (summary_credit (fst vb))
       (period_debit (snd vb)) (period_credit (snd vb))
       (summary_debit (fst vb) - period_debit (snd vb))
       (summary_credit (fst vb) - period_credit (snd vb))"

text \<open>
  Company B, account 6602: vouchers of the fiscal years 2023 (12000 debit) and 2024
  (7000 and 5000 debit, the year written with a comma), balance rows of 2023 (11500
  debit in the period) and 2024 (12000). The year labels are converted by
  \<open>example_to_int\<close>.
\<close>

definition example_to_int :: "string \<Rightarrow> int" where
  "example_to_int s =
     (if s = ''2023'' then 2023 else if s = ''2024'' then 2024
      else if s = ''2025'' then 2025 else 0)"

definition voucher_example :: validator where
  "voucher_example =
     \<lparr>val_balance_df =
        [example_row ''B'' ''2023'' 2023 (Some ''6602'') None (0, 0) (11500, 0) (11500, 0),
         example_row ''B'' ''2024'' 2024 (Some ''6602'') None (0, 0) (12000, 0) (12000, 0)],
      voucher_df =
        [\<lparr>voucher_company = ''B'', fiscal_year = ''2023'',
          voucher_subject_code = Some ''6602'', debit_amount = 12000, credit_amount = 0\<rparr>,
         \<lparr>voucher_company = ''B'', fiscal_year = ''2,024'',
          voucher_subject_code = Some ''6602'', debit_amount = 7000, credit_amount = 0\<rparr>,
         \<lparr>voucher_company = ''B'', fiscal_year = ''2,024'',
          voucher_subject_code = Some ''6602'', debit_amount = 5000, credit_amount = 0\<rparr>],
      validation_results = Map.empty\<rparr>"

text \<open>
  Year continuity in the words of the specification: the rows are grouped by company and
  account code; within a group the entries are sorted by year and each entry is paired
  with the next one; a pair is checked when the years differ by exactly 1; it passes
  when the closing debit equals the opening debit and the closing credit equals the
  opening credit, each within 0.01.
\<close>

definition continuity_groups :: "balance_row list \<Rightarrow> ((string \<times> string) \<times> balance_row list) list" where
  "continuity_groups rows =
     groupby (\<lambda>r. map_option (\<lambda>c. (company r, c)) (subject_code r)) rows"

definition spec_adjacent_pairs :: "balance_row list \<Rightarrow> (balance_row \<times> balance_row) list" where
  "spec_adjacent_pairs entries = (let s = sort_key year entries in zip s (tl s))"

definition spec_consecutive :: "balance_row \<times> balance_row \<Rightarrow> bool" where
  "spec_consecutive pc = (year (snd pc) = year (fst pc) + 1)"

definition spec_carried_forward :: "balance_row \<times> balance_row \<Rightarrow> bool" where
  "spec_carried_forward pc =
     (\<bar>closing_debit (fst pc) - opening_debit (snd pc)\<bar> \<le> 1 / 100
      \<and> \<bar>closing_credit (fst pc) - opening_credit (snd pc)\<bar> \<le> 1 / 100)"

definition spec_continuity_error ::
  "string \<times> string \<Rightarrow> balance_row \<times> balance_row \<Rightarrow> validation_error" where
  "spec_continuity_error key pc =
     YearContinuity (snd key) (fst key) (year (fst pc)) (year (snd pc))
       (closing_debit (fst pc)) (closing_credit (fst pc))
       (opening_debit (snd pc)) (opening_credit (snd pc))"

definition spec_group_errors ::
  "string \<times> string \<Rightarrow> balance_row list \<Rightarrow> validation_error list" where
  "spec_group_errors key entries =
     map (spec_continuity_error key)
       (filter (\<lambda>pc. spec_consecutive pc \<and> \<not> spec_carried_forward pc)
          (spec_adjacent_pairs entries))"

definition spec_group_passes :: "balance_row list \<Rightarrow> nat" where
  "spec_group_passes entries =
     length (filter (\<lambda>pc. spec_consecutive pc \<and> spec_carried_forward pc)
               (spec_adjacent_pairs entries))"

text \<open>
  The account 1002 of company A with the row of 2024 before the row of 2023 in the
  table: closing pair (500, 0), opening pair (600, 100), so the nets agree and the
  sides do not.
\<close>

definition continuity_sides_example :: "balance_row list" where
  "continuity_sides_example =
     [example_row ''A'' ''2024'' 2024 (Some ''1002'') None (600, 100) (0, 0) (600, 100),
      example_row ''A'' ''2023'' 2023 (Some ''1002'') None (0, 0) (500, 0) (500, 0)]"

text \<open>
  Hierarchy reconciliation in the words of the specification. The slices are the
  non-dimension rows of one company and period. The proper-prefix codes of a code are
  the joins of its first 1, 2, ... dot-segments, all but the whole code; the parent of a
  row is the longest of them that is the code of a row of the slice, which is the last
  one in this order. The tree lists each parent, in order of first use, with its
  children in table order.
\<close>

definition hierarchy_slices :: "balance_row list \<Rightarrow> ((string \<times> string) \<times> balance_row list) list" where
  "hierarchy_slices rows =
     groupby (\<lambda>r. Some (company r, period r)) (filter (\<lambda>r. \<not> is_dimension_row r) rows)"

definition first_occurrences :: "'a list \<Rightarrow> 'a list" where
  "first_occurrences xs = rev (remdups (rev xs))"

definition spec_prefix_codes :: "string \<Rightarrow> string list" where
  "spec_prefix_codes code =
     (let parts = py_split CHR ''.'' code in
      map (\<lambda>i. py_join ''.'' (take i parts)) [1..<length parts])"

definition spec_parent_of :: "balance_row list \<Rightarrow> balance_row \<Rightarrow> string option" where
  "spec_parent_of slice row =
     (case filter (\<lambda>c. c \<in> set (map (\<lambda>r. py_str (subject_code r)) slice))
             (spec_prefix_codes (py_str (subject_code row))) of
        [] \<Rightarrow> None
      | c # cs \<Rightarrow> Some (last (c # cs)))"

definition spec_tree :: "balance_row list \<Rightarrow> (string \<times> balance_row list) list" where
  "spec_tree slice =
     map (\<lambda>p. (p, filter (\<lambda>r. spec_parent_of slice r = Some p) slice))
       (first_occurrences (List.map_filter (spec_parent_of slice) slice))"

text \<open>
  The comparisons for one parent: for a classified type the parent's net against the
  net of the summed child columns at the three stages, on the normal side of the type;
  for the unknown type the six raw columns against the child sums. A comparison fails
  when the two values differ by more than 0.01.
\<close>

definition spec_stage_checks ::
  "account_type \<Rightarrow> balance_row \<Rightarrow> balance_row list \<Rightarrow> (check_field \<times> real \<times> real) list" where
  "spec_stage_checks t parent children =
     (if t = Unknown then
        [(OpeningDebit, opening_debit parent, sum_list (map opening_debit children)),
         (OpeningCredit, opening_credit parent, sum_list (map opening_credit children)),
         (PeriodDebit, period_debit parent, sum_list (map period_debit children)),
         (PeriodCredit, period_credit parent, sum_list (map period_credit children)),
         (ClosingDebit, closing_debit parent, sum_list (map closing_debit children)),
         (ClosingCredit, closing_credit parent, sum_list (map closing_credit children))]
      else
        [(OpeningNet, spec_opening_net t parent,
            spec_child_net t opening_debit opening_credit children),
         (PeriodNet, spec_period_net t parent,
            spec_child_net t period_debit period_credit children),
         (ClosingNet, spec_closing_net t parent,
            spec_child_net t closing_debit closing_credit children)])"

definition spec_check_fails :: "check_field \<times> real \<times> real \<Rightarrow> bool" where
  "spec_check_fails chk = (\<bar>fst (snd chk) - snd (snd chk)\<bar> > 1 / 100)"

definition spec_check_error ::
  "string \<Rightarrow> account_type \<Rightarrow> string \<Rightarrow> string \<Rightarrow> check_field \<times> real \<times> real
     \<Rightarrow> validation_error" where
  "spec_check_error code t co pe chk =
     HierarchyCorrectness code t co pe (fst chk) (fst (snd chk)) (snd (snd chk))
       (fst (snd chk) - snd (snd chk))"

text \<open>
  The comparisons for an entry of the tree: those of the first row of the slice that
  carries the parent code, with the type of that code; none when no row carries it.
\<close>

definition spec_parent_checks ::
  "balance_row list \<Rightarrow> string \<times> balance_row list \<Rightarrow> (check_field \<times> real \<times> real) list" where
  "spec_parent_checks slice pc =
     (case find (\<lambda>r. subject_code r = Some (fst pc)) slice of
        None \<Rightarrow> []
      | Some parent \<Rightarrow>
          spec_stage_checks (validator_get_account_type (Some (fst pc))) parent (snd pc))"

definition spec_parent_errors ::
  "string \<Rightarrow> string \<Rightarrow> balance_row list \<Rightarrow> string \<times> balance_row list
     \<Rightarrow> validation_error list" where
  "spec_parent_errors co pe slice pc =
     map (spec_check_error (fst pc) (validator_get_account_type (Some (fst pc))) co pe)
       (filter spec_check_fails (spec_parent_checks slice pc))"

definition spec_parent_passes :: "balance_row list \<Rightarrow> string \<times> balance_row list \<Rightarrow> nat" where
  "spec_parent_passes slice pc =
     length (filter (\<lambda>chk. \<not> spec_check_fails chk) (spec_parent_checks slice pc))"

definition spec_hierarchy_errors :: "balance_row list \<Rightarrow> validation_error list" where
  "spec_hierarchy_errors rows =
     concat (map (\<lambda>kg. concat (map (spec_parent_errors (fst (fst kg)) (snd (fst kg)) (snd kg))
                                  (spec_tree (snd kg))))
               (hierarchy_slices rows))"

definition spec_hierarchy_passes :: "balance_row list \<Rightarrow> nat" where
  "spec_hierarchy_passes rows =
     sum_list (map (\<lambda>kg. sum_list (map (spec_parent_passes (snd kg)) (spec_tree (snd kg))))
                 (hierarchy_slices rows))"

text \<open>
  The parent of \<open>hierarchy_parent\<close> stating the closing pair (90, 0) where the children
  net to 100.
\<close>

definition hierarchy_mismatch_example :: "string \<Rightarrow> validator" where
  "hierarchy_mismatch_example code =
     example_validator
       ((hierarchy_parent code)\<lparr>closing_debit := 90\<rparr> # hierarchy_children code)"

section \<open>Properties\<close>

subsection \<open>Loops that accumulate results\<close>

lemma fold_accumulate:
  assumes "\<And>x res. f x res =
     res\<lparr>passed := passed res + P x, failed := failed res + length (E x),
         errors := errors res @ E x\<rparr>"
  shows "fold f xs res =
     res\<lparr>passed := passed res + sum_list (map P xs),
         failed := failed res + length (concat (map E xs)),
         errors := errors res @ concat (map E xs)\<rparr>"
proof (induction xs arbitrary: res)
  case Nil
  then show ?case by simp
next
  case (Cons x xs)
  have "fold f (x # xs) res = fold f xs (f x res)" by simp
  also have "\<dots> = (f x res)\<lparr>passed := passed (f x res) + sum_list (map P xs),
         failed := failed (f x res) + length (concat (map E xs)),
         errors := errors (f x res) @ concat (map E xs)\<rparr>"
    by (rule Cons.IH)
  also have "\<dots> = res\<lparr>passed := passed res + sum_list (map P (x # xs)),
         failed := failed res + length (concat (map E (x # xs))),
         errors := errors res @ concat (map E (x # xs))\<rparr>"
    unfolding assms [of x res] by (simp add: add.assoc)
  finally show ?case .
qed

lemma concat_map_if:
  "concat (map (\<lambda>x. if Q x then [g x] else []) xs) = map g (filter Q xs)"
  by (induction xs) simp_all

lemma sum_list_if:
  "sum_list (map (\<lambda>x. if Q x then 1 else 0) xs) = length (filter Q xs)"
  by (induction xs) simp_all

lemma py_split_nonempty: "py_split sep s \<noteq> []"
  by (induction s) (auto split: list.splits)

lemma to_pair_None: "to_pair t n = None \<longleftrightarrow> t = Unknown"
  by (cases t) (simp_all add: to_pair_def)

text \<open>
  C3. For every real net \<open>n\<close> and every classified account type, the assignment yields a
  pair with at most one nonzero component: the normal side holds \<open>n\<close> and the other side
  0 when \<open>n \<ge> 0\<close>, the opposite side holds \<open>-n\<close> and the normal side 0 when \<open>n < 0\<close>;
  and the net of that pair on the normal side is \<open>n\<close> again.
\<close>

theorem to_pair_roundtrip:
  assumes "t \<noteq> Unknown"
  shows "\<exists>d c. to_pair t n = Some (d, c)
           \<and> (d = 0 \<or> c = 0)
           \<and> (case spec_normal_side t of
                 Debit \<Rightarrow> (if n \<ge> 0 then d = n \<and> c = 0 else d = 0 \<and> c = - n)
               | Credit \<Rightarrow> (if n \<ge> 0 then c = n \<and> d = 0 else c = 0 \<and> d = - n))
           \<and> spec_net (d, c) (spec_normal_side t) = n"
  using assms by (cases t) (auto simp: to_pair_def spec_normal_side_def spec_net_def)

theorem to_pair_roundtrip_witness:
  "Liability \<noteq> Unknown
   \<and> to_pair Liability (-7) = Some (7, 0)
   \<and> spec_net (7, 0) (spec_normal_side Liability) = -7
   \<and> to_pair Asset 0 = Some (0, 0)
   \<and> to_pair Expense 5 = Some (5, 0)"
  using to_pair_roundtrip [of Liability "-7"]
  by (simp add: to_pair_def spec_normal_side_def spec_net_def)

text \<open>On a classified row \<open>_calculate_opening_balance\<close> returns this assignment of
  the closing net minus the period net, and logs nothing.\<close>

lemma calculate_opening_balance_known:
  assumes "adjuster_get_account_type row = t" and "t \<noteq> Unknown"
  shows "to_pair t (spec_closing_net t row - spec_period_net t row)
           = Some (fst (calculate_opening_balance row))
     \<and> snd (calculate_opening_balance row) = []
     \<and> spec_net (fst (calculate_opening_balance row)) (spec_normal_side t)
         = spec_closing_net t row - spec_period_net t row"
  using assms
  by (cases t)
     (simp_all add: calculate_opening_balance_def to_pair_def spec_closing_net_def
        spec_period_net_def spec_net_def spec_normal_side_def Let_def)

subsection \<open>The solver's frame\<close>

















subsection \<open>The solver's post-check and write path\<close>

lemma verify_rows_Cons:
  "verify_rows nets res (row # rows) =
     (case carried_nets nets row of
        None \<Rightarrow> Inl UnboundLocalError
      | Some (opening_net, period_net, closing_net) \<Rightarrow>
          if \<bar>closing_net - (opening_net + period_net)\<bar> > tolerance then
            verify_rows (carried_nets nets row)
              (res\<lparr>errors := errors res @ [EquationError row (adjuster_get_account_type row)
                      opening_net period_net closing_net (opening_net + period_net)
                      (closing_net - (opening_net + period_net))],
                   failed := failed res + 1\<rparr>) rows
          else verify_rows (carried_nets nets row) (res\<lparr>passed := passed res + 1\<rparr>) rows)"
  by (cases "adjuster_get_account_type row")
     (simp_all add: carried_nets_def Let_def spec_opening_net_def spec_period_net_def
        spec_closing_net_def spec_net_def spec_normal_side_def split: option.splits)

declare verify_rows.simps(2) [simp del]

lemma verify_rows_failed_mono:
  "verify_rows nets res rows = Inr res' \<Longrightarrow> failed res \<le> failed res'"
proof (induction rows arbitrary: nets res)
  case Nil
  then show ?case by simp
next
  case (Cons row rows)
  from Cons.prems show ?case
    unfolding verify_rows_Cons
    by (auto split: option.splits if_splits dest!: Cons.IH)
qed

lemma verify_rows_sound:
  assumes "verify_rows nets res rows = Inr res'" and "failed res' = 0"
    and "row \<in> set rows" and "adjuster_get_account_type row \<noteq> Unknown"
  shows "\<not> spec_identity_violated (adjuster_get_account_type row) row"
  using assms
proof (induction rows arbitrary: nets res)
  case Nil
  then show ?case by simp
next
  case (Cons r rows)
  show ?case
  proof (cases "carried_nets nets r")
    case None
    with Cons.prems(1) show ?thesis by (simp add: verify_rows_Cons)
  next
    case (Some n)
    obtain o' p c where n: "n = (o', p, c)" by (cases n) auto
    show ?thesis
    proof (cases "\<bar>c - (o' + p)\<bar> > tolerance")
      case True
      with Cons.prems(1) Some n
      have "verify_rows (Some n)
              (res\<lparr>errors := errors res @ [EquationError r (adjuster_get_account_type r)
                      o' p c (o' + p) (c - (o' + p))],
                   failed := failed res + 1\<rparr>) rows = Inr res'"
        by (simp add: verify_rows_Cons)
      from verify_rows_failed_mono [OF this] Cons.prems(2) show ?thesis by simp
    next
      case False
      with Cons.prems(1) Some n
      have rest: "verify_rows (Some n) (res\<lparr>passed := passed res + 1\<rparr>) rows = Inr res'"
        by (simp add: verify_rows_Cons)
      show ?thesis
      proof (cases "row = r")
        case True
        with Cons.prems(4) Some n have "o' = spec_opening_net (adjuster_get_account_type r) r"
          "p = spec_period_net (adjuster_get_account_type r) r"
          "c = spec_closing_net (adjuster_get_account_type r) r"
          by (simp_all add: carried_nets_def Let_def)
        with False True show ?thesis
          by (simp add: spec_identity_violated_def tolerance_def)
      next
        case False
        with Cons.prems(3) have "row \<in> set rows" by simp
        from Cons.IH [OF rest Cons.prems(2) this Cons.prems(4)] show ?thesis .
      qed
    qed
  qed
qed

text \<open>
  When the file system does not fail, \<open>run_adjustment\<close> leaves the stored table as it
  was whenever it reports failure, and a success after at least one adjustment stores
  the corrected table, in which every classified row of the target years satisfies the
  identity.
\<close>

lemma run_adjustment_no_io_failure:
  "(adjustments_made (adjust_opening_balances stored) = 0
      \<longrightarrow> run_adjustment IoOk stored = (True, stored))
   \<and> (\<not> fst (run_adjustment IoOk stored) \<longrightarrow> snd (run_adjustment IoOk stored) = stored)
   \<and> (fst (run_adjustment IoOk stored) \<and> adjustments_made (adjust_opening_balances stored) \<noteq> 0
      \<longrightarrow> snd (run_adjustment IoOk stored) = balance_df (adjust_opening_balances stored)
        \<and> (\<forall>row \<in> set (snd (run_adjustment IoOk stored)).
              year row \<in> set target_years \<and> adjuster_get_account_type row \<noteq> Unknown
              \<longrightarrow> \<not> spec_identity_violated (adjuster_get_account_type row) row))"
proof (intro conjI impI)
  assume "adjustments_made (adjust_opening_balances stored) = 0"
  then show "run_adjustment IoOk stored = (True, stored)"
    by (simp add: run_adjustment_def)
next
  assume "\<not> fst (run_adjustment IoOk stored)"
  then show "snd (run_adjustment IoOk stored) = stored"
    by (auto simp: run_adjustment_def save_adjusted_data_def Let_def split: sum.splits if_splits)
next
  assume ok: "fst (run_adjustment IoOk stored)
      \<and> adjustments_made (adjust_opening_balances stored) \<noteq> 0"
  then obtain res where
    v: "verify_adjustments (balance_df (adjust_opening_balances stored)) = Inr res"
    and f: "failed res = 0"
    by (auto simp: run_adjustment_def Let_def split: sum.splits if_splits)
  from ok v f
  show saved: "snd (run_adjustment IoOk stored) = balance_df (adjust_opening_balances stored)"
    by (simp add: run_adjustment_def save_adjusted_data_def Let_def)
  show "\<forall>row \<in> set (snd (run_adjustment IoOk stored)).
          year row \<in> set target_years \<and> adjuster_get_account_type row \<noteq> Unknown
          \<longrightarrow> \<not> spec_identity_violated (adjuster_get_account_type row) row"
  proof (intro ballI impI)
    fix row
    assume "row \<in> set (snd (run_adjustment IoOk stored))"
      and k: "year row \<in> set target_years \<and> adjuster_get_account_type row \<noteq> Unknown"
    with saved have m: "row \<in> set (filter (\<lambda>row. year row \<in> set target_years)
                        (balance_df (adjust_opening_balances stored)))"
      by simp
    from k have u: "adjuster_get_account_type row \<noteq> Unknown" by simp
    from v have "verify_rows None \<lparr>passed = 0, failed = 0, errors = []\<rparr>
       (filter (\<lambda>row. year row \<in> set target_years)
          (balance_df (adjust_opening_balances stored))) = Inr res"
      by (simp add: verify_adjustments_def)
    from verify_rows_sound [OF this f m u]
    show "\<not> spec_identity_violated (adjuster_get_account_type row) row" .
  qed
qed

text \<open>
  C1. The write path is not all-or-nothing. With no failure of the file system:
  \<^item> a table whose only row is of unknown type and unbalanced is reported as a success,
    unchanged, although the row is in the year scope and violates the identity;
  \<^item> so is a table whose only row is an unbalanced grand-total row of asset type, while
    the same row after an adjusted row makes the run fail;
  \<^item> so is an asset row whose stored opening pair is within 0.01 of the derived pair on
    each side while its nets differ by 1/64;
  \<^item> an adjusted asset row followed by an unbalanced unknown row is reported as a
    success and the table is written with the violating row in it.

  When the report cannot be written after the table, the run reports failure and the
  stored table is already the corrected one.
\<close>

theorem run_adjustment_breaks_all_or_nothing:
  "run_adjustment IoOk run_example_unknown = (True, run_example_unknown)
   \<and> year (run_example_unknown ! 0) \<in> set target_years
   \<and> spec_identity_violated (adjuster_get_account_type (run_example_unknown ! 0))
        (run_example_unknown ! 0)
   \<and> run_adjustment IoOk [total_row_example] = (True, [total_row_example])
   \<and> year total_row_example \<in> set target_years
   \<and> adjuster_get_account_type total_row_example = Asset
   \<and> spec_identity_violated Asset total_row_example
   \<and> run_adjustment IoOk run_example_total = (False, run_example_total)
   \<and> run_adjustment IoOk run_example_near = (True, run_example_near)
   \<and> adjuster_get_account_type (run_example_near ! 0) = Asset
   \<and> spec_identity_violated Asset (run_example_near ! 0)
   \<and> fst (run_adjustment IoOk run_example_stale)
   \<and> snd (run_adjustment IoOk run_example_stale) \<noteq> run_example_stale
   \<and> snd (run_adjustment IoOk run_example_stale) ! 1 = run_example_stale ! 1
   \<and> spec_identity_violated (adjuster_get_account_type (run_example_stale ! 1))
        (run_example_stale ! 1)
   \<and> \<not> fst (run_adjustment ReportFails run_example_ok)
   \<and> snd (run_adjustment ReportFails run_example_ok) \<noteq> run_example_ok"
  by code_simp

text \<open>
  C10. The post-check does not always read a row's own nets. When the first row in scope
  is of unknown type, reading the unassigned locals raises \<open>UnboundLocalError\<close>; when an
  unknown row follows a classified one it is judged by the nets of that earlier row:
  here the unbalanced row with code 9999 is counted as passed.
\<close>

theorem verify_adjustments_stale_nets:
  "verify_adjustments [unknown_example] = Inl UnboundLocalError
   \<and> verify_adjustments
       [example_row ''A'' ''2024'' 2024 (Some ''1001'') None (100, 0) (0, 0) (100, 0),
        unknown_example]
     = Inr \<lparr>passed = 2, failed = 0, errors = []\<rparr>
   \<and> \<bar>closing_debit unknown_example - closing_credit unknown_example
        - ((opening_debit unknown_example - opening_credit unknown_example)
           + (period_debit unknown_example - period_credit unknown_example))\<bar> > tolerance"
  by code_simp

subsection \<open>The classifier\<close>

lemma startswith_hd: "startswith s [c] \<longleftrightarrow> (s \<noteq> [] \<and> hd s = c)"
  by (cases s) (simp_all add: startswith_def)

lemma adjuster_type_blank:
  assumes "subject_code row = None \<or> subject_code row = Some []"
    and "subject_code_path row = None \<or> subject_code_path row = Some []"
  shows "adjuster_get_account_type row = Unknown"
  using assms by (auto simp: adjuster_get_account_type_def py_str_def)

lemma adjuster_type_from_code:
  assumes "subject_code row = Some code"
    and "leading_digit_type (hd (py_split CHR ''.'' code)) = Some t"
  shows "adjuster_get_account_type row = t"
proof -
  from assms(2) have "code \<noteq> ''nan''" by (auto simp: leading_digit_type_def startswith_def)
  moreover from assms(2) have "code \<noteq> []" by (auto simp: leading_digit_type_def startswith_def)
  ultimately show ?thesis using assms
    by (simp add: adjuster_get_account_type_def py_str_def)
qed

text \<open>
  C4. The classifier of the solver consults the path also when a non-blank code matches
  no branch: the code 9999 with the path /1001/ is classified as an asset, where the
  specification (and the validator's classifier, on the same code) gives unknown.
\<close>

theorem adjuster_type_falls_through_to_path:
  "adjuster_get_account_type
     (example_row ''A'' ''2024'' 2024 (Some ''9999'') (Some ''/1001/'') (0, 0) (0, 0) (0, 0))
     = Asset
   \<and> validator_get_account_type (Some ''9999'') = Unknown"
  by code_simp

subsection \<open>The accounting equation\<close>


lemma check_equation_row_known:
  assumes "classified row"
  shows "check_equation_row row res =
     (if spec_row_violates row
      then res\<lparr>errors := errors res @ [spec_equation_error row], failed := failed res + 1\<rparr>
      else res\<lparr>passed := passed res + 1\<rparr>)"
  using assms
  by (cases "validator_get_account_type (subject_code row)")
     (simp_all add: classified_def check_equation_row_def spec_row_violates_def
      spec_equation_error_def spec_identity_violated_def
      spec_opening_net_def spec_period_net_def spec_closing_net_def spec_net_def
      spec_normal_side_def tolerance_def Let_def)

lemma check_equation_row_unknown:
  "\<not> classified row \<Longrightarrow> check_equation_row row res = res"
  by (cases "validator_get_account_type (subject_code row)")
     (simp_all add: classified_def check_equation_row_def)

lemma fold_check_equation_row:
  "fold check_equation_row rows res =
     res\<lparr>passed := passed res
                + length (filter (\<lambda>r. \<not> spec_row_violates r) (filter classified rows)),
         failed := failed res + length (filter spec_row_violates (filter classified rows)),
         errors := errors res
                @ map spec_equation_error (filter spec_row_violates (filter classified rows))\<rparr>"
proof (induction rows arbitrary: res)
  case Nil
  then show ?case by simp
next
  case (Cons row rows)
  show ?case
  proof (cases "classified row")
    case True
    then show ?thesis
      by (simp add: Cons.IH check_equation_row_known)
  next
    case False
    then show ?thesis
      by (simp add: Cons.IH check_equation_row_unknown)
  qed
qed


text \<open>
  Under the validator's own classifier, which reads the code alone, the identity check
  records exactly the classified rows whose nets, taken on the normal side of the type
  for all three pairs, differ by more than 0.01: the errors are the records of these
  rows in table order, \<open>failed\<close> counts them and \<open>passed\<close> counts the other classified
  rows. Neither table is modified.
\<close>

theorem validate_accounting_equation_spec:
  "errors (fst (validate_accounting_equation self)) =
     map spec_equation_error (filter spec_row_violates (filter classified (val_balance_df self)))
   \<and> failed (fst (validate_accounting_equation self)) =
       length (filter spec_row_violates (filter classified (val_balance_df self)))
   \<and> passed (fst (validate_accounting_equation self)) =
       length (filter (\<lambda>r. \<not> spec_row_violates r) (filter classified (val_balance_df self)))
   \<and> val_balance_df (snd (validate_accounting_equation self)) = val_balance_df self
   \<and> voucher_df (snd (validate_accounting_equation self)) = voucher_df self"
  by (simp add: validate_accounting_equation_def Let_def fold_check_equation_row no_results_def)

theorem validate_accounting_equation_spec_witness:
  "classified (hd run_example_ok) \<and> spec_row_violates (hd run_example_ok)
   \<and> errors (fst (validate_accounting_equation (example_validator run_example_ok))) =
       [AccountingEquation (hd run_example_ok) Asset 0 0 100 0 100]
   \<and> failed (fst (validate_accounting_equation (example_validator run_example_ok))) = 1
   \<and> passed (fst (validate_accounting_equation (example_validator run_example_ok))) = 0"
proof -
  have c: "classified (hd run_example_ok)" by code_simp
  have v: "spec_row_violates (hd run_example_ok)" by code_simp
  have e: "map spec_equation_error (filter spec_row_violates (filter classified
             (val_balance_df (example_validator run_example_ok)))) =
           [AccountingEquation (hd run_example_ok) Asset 0 0 100 0 100]" by code_simp
  have f: "length (filter spec_row_violates (filter classified
             (val_balance_df (example_validator run_example_ok)))) = 1" by code_simp
  have p: "length (filter (\<lambda>r. \<not> spec_row_violates r) (filter classified
             (val_balance_df (example_validator run_example_ok)))) = 0" by code_simp
  from validate_accounting_equation_spec [of "example_validator run_example_ok"] c v e f p
  show ?thesis by simp
qed

text \<open>
  C2. The identity check does not cover every row whose classification is one of the
  five types. A dimension row with a blank code and the path /1221/1221.01/ is an asset
  by code and path (and for the solver's classifier), and its nets violate the
  identity; the validator classifies by the code alone, takes the row for unknown and
  records nothing: it is counted neither as failed nor as passed.
\<close>

theorem validator_skips_blank_code_row:
  "subject_code blank_code_example = None
   \<and> is_dimension_row blank_code_example
   \<and> spec_classification blank_code_example = Asset
   \<and> adjuster_get_account_type blank_code_example = Asset
   \<and> spec_identity_violated Asset blank_code_example
   \<and> validator_get_account_type (subject_code blank_code_example) = Unknown
   \<and> fst (validate_accounting_equation (example_validator [blank_code_example]))
       = \<lparr>passed = 0, failed = 0, errors = []\<rparr>"
  by code_simp




subsection \<open>Year continuity\<close>

lemma check_continuity_pair_gap:
  "year c \<noteq> year p + 1 \<Longrightarrow> check_continuity_pair key (p, c) res = res"
  by (simp add: check_continuity_pair_def)

lemma check_continuity_pair_adjacent:
  "year c = year p + 1 \<Longrightarrow>
   check_continuity_pair key (p, c) res =
     (if \<bar>closing_debit p - opening_debit c\<bar> \<le> 1 / 100
         \<and> \<bar>closing_credit p - opening_credit c\<bar> \<le> 1 / 100
      then res\<lparr>passed := passed res + 1\<rparr>
      else res\<lparr>errors := errors res @ [YearContinuity (snd key) (fst key) (year p) (year c)
                   (closing_debit p) (closing_credit p) (opening_debit c) (opening_credit c)],
               failed := failed res + 1\<rparr>)"
  by (simp add: check_continuity_pair_def Let_def tolerance_def)

lemma check_continuity_pair_eq:
  "check_continuity_pair key pc res =
     res\<lparr>passed := passed res
            + (if spec_consecutive pc \<and> spec_carried_forward pc then 1 else 0),
         failed := failed res
            + length (if spec_consecutive pc \<and> \<not> spec_carried_forward pc
                      then [spec_continuity_error key pc] else []),
         errors := errors res
            @ (if spec_consecutive pc \<and> \<not> spec_carried_forward pc
               then [spec_continuity_error key pc] else [])\<rparr>"
  by (simp add: check_continuity_pair_def Let_def tolerance_def spec_consecutive_def
        spec_carried_forward_def spec_continuity_error_def)

lemma check_continuity_group_eq:
  "check_continuity_group kg res =
     res\<lparr>passed := passed res + spec_group_passes (snd kg),
         failed := failed res + length (spec_group_errors (fst kg) (snd kg)),
         errors := errors res @ spec_group_errors (fst kg) (snd kg)\<rparr>"
proof -
  define s where "s = sort_key year (snd kg)"
  have z: "zip s (tl s) = []" if "length s < 2"
  proof (cases s)
    case Nil
    then show ?thesis by simp
  next
    case (Cons x xs)
    with that have "xs = []" by simp
    with Cons show ?thesis by simp
  qed
  have "check_continuity_group kg res
          = fold (check_continuity_pair (fst kg)) (zip s (tl s)) res"
  proof (cases "length s < 2")
    case True
    then have e: "zip s (tl s) = []" by (rule z)
    have "fold (check_continuity_pair (fst kg)) (zip s (tl s)) res = res"
      by (simp only: e fold_simps id_apply)
    moreover from True have "check_continuity_group kg res = res"
      unfolding check_continuity_group_def Let_def s_def [symmetric] by simp
    ultimately show ?thesis by simp
  next
    case False
    then show ?thesis
      unfolding check_continuity_group_def Let_def s_def [symmetric] by simp
  qed
  also have "\<dots> = res\<lparr>passed := passed res
              + length (filter (\<lambda>pc. spec_consecutive pc \<and> spec_carried_forward pc)
                          (zip s (tl s))),
         failed := failed res
              + length (map (spec_continuity_error (fst kg))
                  (filter (\<lambda>pc. spec_consecutive pc \<and> \<not> spec_carried_forward pc)
                     (zip s (tl s)))),
         errors := errors res
              @ map (spec_continuity_error (fst kg))
                  (filter (\<lambda>pc. spec_consecutive pc \<and> \<not> spec_carried_forward pc)
                     (zip s (tl s)))\<rparr>"
    by (simp only: fold_accumulate [OF check_continuity_pair_eq] concat_map_if sum_list_if)
  finally show ?thesis
    by (simp add: spec_group_passes_def spec_group_errors_def spec_adjacent_pairs_def
          Let_def s_def)
qed

text \<open>
  C8 (as amended). The rows are grouped by company and account code; each group is
  sorted by year and every entry is paired with the next one; a pair is checked only
  when the years differ by exactly 1, other pairs are skipped; a checked pair passes
  when closing debit and opening debit, and closing credit and opening credit, each
  differ by at most 0.01, and fails otherwise, its error carrying the two pairs of
  amounts and no difference. So with the closing pair (500, 0) in 2023 the opening pair
  (500, 0) in 2024 passes, and (499.98, 0), which is 0.02 away, and (480, 0) fail.
\<close>

theorem validate_year_continuity_spec:
  "errors (fst (validate_year_continuity self)) =
     concat (map (\<lambda>kg. spec_group_errors (fst kg) (snd kg))
               (continuity_groups (val_balance_df self)))
   \<and> failed (fst (validate_year_continuity self)) =
       length (concat (map (\<lambda>kg. spec_group_errors (fst kg) (snd kg))
                         (continuity_groups (val_balance_df self))))
   \<and> passed (fst (validate_year_continuity self)) =
       sum_list (map (\<lambda>kg. spec_group_passes (snd kg))
                   (continuity_groups (val_balance_df self)))
   \<and> val_balance_df (snd (validate_year_continuity self)) = val_balance_df self
   \<and> voucher_df (snd (validate_year_continuity self)) = voucher_df self"
  by (simp add: validate_year_continuity_def Let_def continuity_groups_def no_results_def
        fold_accumulate [OF check_continuity_group_eq])


theorem validate_year_continuity_spec_witness:
  "passed (fst (validate_year_continuity (example_validator (continuity_example 500)))) = 1
   \<and> failed (fst (validate_year_continuity (example_validator (continuity_example 500)))) = 0
   \<and> passed (fst (validate_year_continuity (example_validator (continuity_example 499.98)))) = 0
   \<and> errors (fst (validate_year_continuity (example_validator (continuity_example 499.98))))
       = [YearContinuity ''1002'' ''A'' 2023 2024 500 0 499.98 0]
   \<and> passed (fst (validate_year_continuity (example_validator (continuity_example 480)))) = 0
   \<and> errors (fst (validate_year_continuity (example_validator (continuity_example 480))))
       = [YearContinuity ''1002'' ''A'' 2023 2024 500 0 480 0]
   \<and> passed (fst (validate_year_continuity (example_validator continuity_gap_example))) = 0
   \<and> failed (fst (validate_year_continuity (example_validator continuity_gap_example))) = 0
   \<and> passed (fst (validate_year_continuity (example_validator continuity_sides_example))) = 0
   \<and> errors (fst (validate_year_continuity (example_validator continuity_sides_example)))
       = [YearContinuity ''1002'' ''A'' 2023 2024 500 0 600 100]"
proof -
  have e1: "concat (map (\<lambda>kg. spec_group_errors (fst kg) (snd kg))
      (continuity_groups (val_balance_df (example_validator (continuity_example 500))))) = []"
    by code_simp
  have p1: "sum_list (map (\<lambda>kg. spec_group_passes (snd kg))
      (continuity_groups (val_balance_df (example_validator (continuity_example 500))))) = 1"
    by code_simp
  have e2: "concat (map (\<lambda>kg. spec_group_errors (fst kg) (snd kg))
      (continuity_groups (val_balance_df (example_validator (continuity_example 499.98)))))
      = [YearContinuity ''1002'' ''A'' 2023 2024 500 0 499.98 0]"
    by code_simp
  have p2: "sum_list (map (\<lambda>kg. spec_group_passes (snd kg))
      (continuity_groups (val_balance_df (example_validator (continuity_example 499.98))))) = 0"
    by code_simp
  have e3: "concat (map (\<lambda>kg. spec_group_errors (fst kg) (snd kg))
      (continuity_groups (val_balance_df (example_validator (continuity_example 480)))))
      = [YearContinuity ''1002'' ''A'' 2023 2024 500 0 480 0]"
    by code_simp
  have p3: "sum_list (map (\<lambda>kg. spec_group_passes (snd kg))
      (continuity_groups (val_balance_df (example_validator (continuity_example 480))))) = 0"
    by code_simp
  have e4: "concat (map (\<lambda>kg. spec_group_errors (fst kg) (snd kg))
      (continuity_groups (val_balance_df (example_validator continuity_gap_example)))) = []"
    by code_simp
  have p4: "sum_list (map (\<lambda>kg. spec_group_passes (snd kg))
      (continuity_groups (val_balance_df (example_validator continuity_gap_example)))) = 0"
    by code_simp
  have e5: "concat (map (\<lambda>kg. spec_group_errors (fst kg) (snd kg))
      (continuity_groups (val_balance_df (example_validator continuity_sides_example))))
      = [YearContinuity ''1002'' ''A'' 2023 2024 500 0 600 100]"
    by code_simp
  have p5: "sum_list (map (\<lambda>kg. spec_group_passes (snd kg))
      (continuity_groups (val_balance_df (example_validator continuity_sides_example)))) = 0"
    by code_simp
  from validate_year_continuity_spec [of "example_validator (continuity_example 500)"] e1 p1
  have r1: "passed (fst (validate_year_continuity (example_validator (continuity_example 500)))) = 1
     \<and> failed (fst (validate_year_continuity (example_validator (continuity_example 500)))) = 0"
    by simp
  from validate_year_continuity_spec [of "example_validator (continuity_example 499.98)"] e2 p2
  have r2: "passed (fst (validate_year_continuity (example_validator (continuity_example 499.98)))) = 0
     \<and> errors (fst (validate_year_continuity (example_validator (continuity_example 499.98))))
       = [YearContinuity ''1002'' ''A'' 2023 2024 500 0 499.98 0]"
    by simp
  from validate_year_continuity_spec [of "example_validator (continuity_example 480)"] e3 p3
  have r3: "passed (fst (validate_year_continuity (example_validator (continuity_example 480)))) = 0
     \<and> errors (fst (validate_year_continuity (example_validator (continuity_example 480))))
       = [YearContinuity ''1002'' ''A'' 2023 2024 500 0 480 0]"
    by simp
  from validate_year_continuity_spec [of "example_validator continuity_gap_example"] e4 p4
  have r4: "passed (fst (validate_year_continuity (example_validator continuity_gap_example))) = 0
     \<and> failed (fst (validate_year_continuity (example_validator continuity_gap_example))) = 0"
    by simp
  from validate_year_continuity_spec [of "example_validator continuity_sides_example"] e5 p5
  have r5: "passed (fst (validate_year_continuity (example_validator continuity_sides_example))) = 0
     \<and> errors (fst (validate_year_continuity (example_validator continuity_sides_example)))
       = [YearContinuity ''1002'' ''A'' 2023 2024 500 0 600 100]"
    by simp
  from r1 r2 r3 r4 r5 show ?thesis by blast
qed


text \<open>
  C8 as stated fails: the opening pair (499.98, 0) is not within the tolerance of the
  closing pair (500, 0), and the check counts the pair of years as failed.
\<close>

theorem year_continuity_two_cents_fails:
  "\<bar>500 - 499.98\<bar> > tolerance
   \<and> passed (fst (validate_year_continuity (example_validator (continuity_example 499.98)))) = 0
   \<and> failed (fst (validate_year_continuity (example_validator (continuity_example 499.98)))) = 1"
  by code_simp

subsection \<open>Hierarchy reconciliation\<close>

lemma py_join_snoc:
  "xs \<noteq> [] \<Longrightarrow> py_join sep (xs @ [x]) = py_join sep xs @ sep @ x"
  by (induction sep xs rule: py_join.induct) simp_all

lemma py_join_take_Suc:
  assumes "0 < i" and "i < length parts"
  shows "length (py_join sep (take (Suc i) parts))
           = length (py_join sep (take i parts)) + length sep + length (parts ! i)"
proof -
  from assms have "take i parts \<noteq> []" by auto
  with assms show ?thesis
    by (simp add: take_Suc_conv_app_nth py_join_snoc)
qed

lemma py_join_take_mono:
  assumes "0 < i" and "i < j" and "j \<le> length parts" and "sep \<noteq> []"
  shows "length (py_join sep (take i parts)) < length (py_join sep (take j parts))"
  using assms(2,3)
proof (induction j)
  case 0
  then show ?case by simp
next
  case (Suc j)
  from Suc.prems assms(1) have s: "length (py_join sep (take (Suc j) parts))
      = length (py_join sep (take j parts)) + length sep + length (parts ! j)"
    by (intro py_join_take_Suc) auto
  from assms(4) have l: "0 < length sep" by simp
  show ?case
  proof (cases "i = j")
    case True
    with s l show ?thesis by simp
  next
    case False
    with Suc.prems have "i < j" "j \<le> length parts" by auto
    from Suc.IH [OF this] s show ?thesis by simp
  qed
qed

lemma spec_prefix_codes_sorted:
  "sorted_wrt (\<lambda>a b. length a < length b) (spec_prefix_codes code)"
proof -
  have "sorted_wrt (<) [1..<length (py_split CHR ''.'' code)]"
    by (rule sorted_wrt_upt)
  then have "sorted_wrt (\<lambda>i j. length (py_join ''.'' (take i (py_split CHR ''.'' code)))
                            < length (py_join ''.'' (take j (py_split CHR ''.'' code))))
               [1..<length (py_split CHR ''.'' code)]"
    by (rule sorted_wrt_mono_rel [rotated]) (auto intro: py_join_take_mono)
  then show ?thesis
    by (simp add: spec_prefix_codes_def Let_def sorted_wrt_map)
qed

lemma fold_longest_last:
  "sorted_wrt (\<lambda>a b. length a < length b) (x # xs) \<Longrightarrow>
   fold (\<lambda>x best. if length x > length best then x else best) xs x = last (x # xs)"
proof (induction xs arbitrary: x)
  case Nil
  then show ?case by simp
next
  case (Cons y ys)
  from Cons.prems have "length x < length y" and "sorted_wrt (\<lambda>a b. length a < length b) (y # ys)"
    by auto
  with Cons.IH [of y] show ?case by simp
qed

lemma max_by_len_last:
  assumes "sorted_wrt (\<lambda>a b. length a < length b) cs" and "cs \<noteq> []"
  shows "max_by_len cs = last cs"
proof -
  from assms(2) obtain x xs where c: "cs = x # xs" by (cases cs) auto
  with assms(1) fold_longest_last [of x xs] show ?thesis
    by (simp add: max_by_len_def)
qed

lemma parent_candidates_of_eq:
  "parent_candidates_of df row =
     filter (\<lambda>c. c \<in> set (map (\<lambda>r. py_str (subject_code r)) df))
       (spec_prefix_codes (py_str (subject_code row)))"
  by (simp add: parent_candidates_of_def spec_prefix_codes_def Let_def)

lemma spec_parent_of_candidates:
  "spec_parent_of df row =
     (case parent_candidates_of df row of [] \<Rightarrow> None | c # cs \<Rightarrow> Some (last (c # cs)))"
  by (simp only: spec_parent_of_def parent_candidates_of_eq)

lemma chosen_parent:
  "(if parent_candidates_of df row \<noteq> []
    then Some (max_by_len (parent_candidates_of df row)) else None) = spec_parent_of df row"
proof (cases "parent_candidates_of df row")
  case Nil
  then show ?thesis
    by (simp add: spec_parent_of_candidates)
next
  case (Cons c cs)
  have "sorted_wrt (\<lambda>a b. length a < length b) (parent_candidates_of df row)"
    unfolding parent_candidates_of_eq
    by (rule sorted_wrt_filter) (rule spec_prefix_codes_sorted)
  with Cons have "max_by_len (parent_candidates_of df row) = last (c # cs)"
    by (simp add: max_by_len_last)
  with Cons show ?thesis
    by (simp add: spec_parent_of_candidates)
qed

text \<open>The parent chosen is strictly longer than every other candidate.\<close>

lemma spec_parent_of_longest:
  assumes "spec_parent_of df row = Some p"
  shows "p \<in> set (parent_candidates_of df row)
     \<and> (\<forall>q \<in> set (parent_candidates_of df row). q \<noteq> p \<longrightarrow> length q < length p)"
proof -
  have s: "sorted_wrt (\<lambda>a b. length a < length b) (parent_candidates_of df row)"
    unfolding parent_candidates_of_eq
    by (rule sorted_wrt_filter) (rule spec_prefix_codes_sorted)
  from assms have ne: "parent_candidates_of df row \<noteq> []"
    and p: "p = last (parent_candidates_of df row)"
    by (auto simp: spec_parent_of_candidates split: list.splits)
  from ne obtain ys where a: "parent_candidates_of df row = ys @ [p]"
    using p by (metis append_butlast_last_id)
  with s have "\<forall>q \<in> set ys. length q < length p"
    by (simp add: sorted_wrt_append)
  with a show ?thesis by auto
qed


lemma first_occurrences_snoc:
  "first_occurrences (ks @ [q]) =
     (if q \<in> set ks then first_occurrences ks else first_occurrences ks @ [q])"
  by (simp add: first_occurrences_def)

lemma set_first_occurrences: "set (first_occurrences ks) = set ks"
  by (simp add: first_occurrences_def)

lemma map_filter_snoc:
  "List.map_filter f (xs @ [x]) =
     List.map_filter f xs @ (case f x of None \<Rightarrow> [] | Some y \<Rightarrow> [y])"
  by (simp add: List.map_filter_def split: option.splits)

lemma set_map_filter: "set (List.map_filter f xs) = {y. \<exists>x \<in> set xs. f x = Some y}"
  by (force simp: List.map_filter_def image_iff)

lemma tree_append_keys:
  "tree_append (map (\<lambda>p. (p, g p)) ks) q r =
     (if q \<in> set ks
      then map (\<lambda>p. (p, if p = q then g p @ [r] else g p)) ks
      else map (\<lambda>p. (p, g p)) ks @ [(q, [r])])"
  by (auto simp: tree_append_def Let_def image_iff)

lemma fold_tree:
  "fold (\<lambda>row tree. case par row of None \<Rightarrow> tree | Some p \<Rightarrow> tree_append tree p row) rows []
     = map (\<lambda>p. (p, filter (\<lambda>r. par r = Some p) rows))
         (first_occurrences (List.map_filter par rows))"
proof (induction rows rule: rev_induct)
  case Nil
  then show ?case by (simp add: first_occurrences_def List.map_filter_def)
next
  case (snoc r rows)
  show ?case
  proof (cases "par r")
    case None
    with snoc show ?thesis by (simp add: map_filter_snoc)
  next
    case (Some q)
    show ?thesis
    proof (cases "q \<in> set (List.map_filter par rows)")
      case True
      with Some snoc show ?thesis
        by (auto simp: map_filter_snoc first_occurrences_snoc tree_append_keys
              set_first_occurrences)
    next
      case False
      then have "filter (\<lambda>x. par x = Some q) rows = []"
        by (auto simp: set_map_filter filter_empty_conv)
      with False Some snoc show ?thesis
        by (auto simp: map_filter_snoc first_occurrences_snoc tree_append_keys
              set_first_occurrences)
    qed
  qed
qed

lemma build_subject_tree_spec: "build_subject_tree df = spec_tree df"
proof -
  have "(\<lambda>row tree.
            (let parent_candidates = parent_candidates_of df row in
             if parent_candidates \<noteq> []
             then tree_append tree (max_by_len parent_candidates) row
             else tree))
        = (\<lambda>row tree. case spec_parent_of df row of
                          None \<Rightarrow> tree | Some p \<Rightarrow> tree_append tree p row)"
  proof (intro ext)
    fix row tree
    show "(let parent_candidates = parent_candidates_of df row in
             if parent_candidates \<noteq> []
             then tree_append tree (max_by_len parent_candidates) row
             else tree)
        = (case spec_parent_of df row of None \<Rightarrow> tree | Some p \<Rightarrow> tree_append tree p row)"
      unfolding chosen_parent [of df row, symmetric]
      by (simp add: Let_def)
  qed
  then show ?thesis
    by (simp add: build_subject_tree_def spec_tree_def fold_tree)
qed

lemma hierarchy_checks_spec:
  "hierarchy_checks t parent children = spec_stage_checks t parent children"
  by (cases t)
     (simp_all add: hierarchy_checks_def spec_stage_checks_def spec_opening_net_def
        spec_period_net_def spec_closing_net_def spec_child_net_def spec_net_def
        spec_normal_side_def)

lemma run_check_eq:
  "run_check code t co pe chk res =
     res\<lparr>passed := passed res + (if spec_check_fails chk then 0 else 1),
         failed := failed res
            + length (if spec_check_fails chk then [spec_check_error code t co pe chk] else []),
         errors := errors res
            @ (if spec_check_fails chk then [spec_check_error code t co pe chk] else [])\<rparr>"
  by (simp add: run_check_def Let_def tolerance_def spec_check_fails_def spec_check_error_def)

lemma sum_list_if_not:
  "sum_list (map (\<lambda>x. if Q x then 0 else 1) xs) = length (filter (\<lambda>x. \<not> Q x) xs)"
  by (induction xs) simp_all

lemma fold_run_check:
  "fold (run_check code t co pe) chks res =
     res\<lparr>passed := passed res + length (filter (\<lambda>chk. \<not> spec_check_fails chk) chks),
         failed := failed res
            + length (map (spec_check_error code t co pe) (filter spec_check_fails chks)),
         errors := errors res
            @ map (spec_check_error code t co pe) (filter spec_check_fails chks)\<rparr>"
  by (simp only: fold_accumulate [OF run_check_eq] concat_map_if sum_list_if_not)

lemma find_filter:
  "find P xs = (case filter P xs of [] \<Rightarrow> None | x # _ \<Rightarrow> Some x)"
  by (induction xs) simp_all

lemma check_parent_eq:
  "check_parent co pe slice pc res =
     res\<lparr>passed := passed res + spec_parent_passes slice pc,
         failed := failed res + length (spec_parent_errors co pe slice pc),
         errors := errors res @ spec_parent_errors co pe slice pc\<rparr>"
proof (cases "filter (\<lambda>r. subject_code r = Some (fst pc)) slice")
  case Nil
  then have "find (\<lambda>r. subject_code r = Some (fst pc)) slice = None"
    by (simp add: find_filter)
  with Nil show ?thesis
    by (simp add: check_parent_def Let_def spec_parent_passes_def spec_parent_errors_def
          spec_parent_checks_def)
next
  case (Cons parent rest)
  then have f: "find (\<lambda>r. subject_code r = Some (fst pc)) slice = Some parent"
    by (simp add: find_filter)
  from Cons have "parent \<in> set (filter (\<lambda>r. subject_code r = Some (fst pc)) slice)"
    by simp
  then have m: "Some (fst pc) \<in> set (map subject_code slice)"
    by force
  from Cons f m show ?thesis
    by (simp add: check_parent_def Let_def spec_parent_passes_def spec_parent_errors_def
          spec_parent_checks_def hierarchy_checks_spec fold_run_check)
qed

lemma check_period_group_eq:
  "check_period_group kg res =
     res\<lparr>passed := passed res
            + sum_list (map (spec_parent_passes (snd kg)) (spec_tree (snd kg))),
         failed := failed res
            + length (concat (map (spec_parent_errors (fst (fst kg)) (snd (fst kg)) (snd kg))
                                (spec_tree (snd kg)))),
         errors := errors res
            @ concat (map (spec_parent_errors (fst (fst kg)) (snd (fst kg)) (snd kg))
                        (spec_tree (snd kg)))\<rparr>"
  by (simp only: check_period_group_def Let_def build_subject_tree_spec
        fold_accumulate [OF check_parent_eq])

lemma validate_hierarchy_correctness_spec:
  "errors (fst (validate_hierarchy_correctness self)) = spec_hierarchy_errors (val_balance_df self)
   \<and> failed (fst (validate_hierarchy_correctness self))
       = length (spec_hierarchy_errors (val_balance_df self))
   \<and> passed (fst (validate_hierarchy_correctness self))
       = spec_hierarchy_passes (val_balance_df self)
   \<and> val_balance_df (snd (validate_hierarchy_correctness self)) = val_balance_df self
   \<and> voucher_df (snd (validate_hierarchy_correctness self)) = voucher_df self"
  by (simp add: validate_hierarchy_correctness_def Let_def hierarchy_slices_def
        spec_hierarchy_errors_def spec_hierarchy_passes_def no_results_def
        fold_accumulate [OF check_period_group_eq])


lemma spec_stage_checks_agree:
  assumes "t \<noteq> Unknown"
  shows "filter spec_check_fails (spec_stage_checks t parent children) = []
           \<longleftrightarrow> spec_stage_nets_agree t parent children"
  using assms
  by (auto simp: spec_stage_checks_def spec_stage_nets_agree_def spec_check_fails_def
        filter_empty_conv)

lemma check_parent_no_error_iff:
  assumes "find (\<lambda>r. subject_code r = Some p) slice = Some parent"
    and "validator_get_account_type (Some p) \<noteq> Unknown"
  shows "errors (check_parent co pe slice (p, children) res) = errors res
           \<longleftrightarrow> spec_stage_nets_agree (validator_get_account_type (Some p)) parent children"
proof -
  have "errors (check_parent co pe slice (p, children) res)
          = errors res @ spec_parent_errors co pe slice (p, children)"
    by (simp add: check_parent_eq)
  then have "errors (check_parent co pe slice (p, children) res) = errors res
     \<longleftrightarrow> filter spec_check_fails
           (spec_stage_checks (validator_get_account_type (Some p)) parent children) = []"
    using assms(1) by (simp add: spec_parent_errors_def spec_parent_checks_def)
  with spec_stage_checks_agree [OF assms(2)] show ?thesis by simp
qed

text \<open>
  C5. For every table, the errors, \<open>failed\<close> and \<open>passed\<close> of the hierarchy
  reconciliation are those of the specification: in each slice of non-dimension rows of
  one company and period, every parent of the tree is compared with its children, a
  classified parent (asset or expense on the debit side, liability, equity or income on
  the credit side) by the three nets of the summed child debits and credits, an unknown
  parent by the six raw columns against the child sums, each comparison failing when
  the values differ by more than 0.01. The tree built by the code is the one of the
  specification. For a classified parent no violation is recorded exactly when the
  nets agree within 0.01 at all three stages, whatever the single amounts of the
  children are. Neither table is modified.
\<close>

theorem hierarchy_reconciliation_spec:
  "errors (fst (validate_hierarchy_correctness self)) = spec_hierarchy_errors (val_balance_df self)
   \<and> failed (fst (validate_hierarchy_correctness self))
       = length (spec_hierarchy_errors (val_balance_df self))
   \<and> passed (fst (validate_hierarchy_correctness self))
       = spec_hierarchy_passes (val_balance_df self)
   \<and> val_balance_df (snd (validate_hierarchy_correctness self)) = val_balance_df self
   \<and> voucher_df (snd (validate_hierarchy_correctness self)) = voucher_df self
   \<and> build_subject_tree slice = spec_tree slice
   \<and> (find (\<lambda>r. subject_code r = Some p) slice = Some parent
        \<and> validator_get_account_type (Some p) \<noteq> Unknown
      \<longrightarrow> (errors (check_parent co pe slice (p, children) res) = errors res
            \<longleftrightarrow> spec_stage_nets_agree (validator_get_account_type (Some p)) parent children))"
  using validate_hierarchy_correctness_spec [of self] build_subject_tree_spec [of slice]
    check_parent_no_error_iff [of p slice parent co pe children res]
  by blast

theorem hierarchy_reconciliation_spec_witness:
  "find (\<lambda>r. subject_code r = Some ''1221'') (val_balance_df (hierarchy_example ''1221''))
     = Some (hierarchy_parent ''1221'')
   \<and> validator_get_account_type (Some ''1221'') \<noteq> Unknown
   \<and> spec_stage_nets_agree (validator_get_account_type (Some ''1221''))
        (hierarchy_parent ''1221'') (hierarchy_children ''1221'')
   \<and> closing_debit (hierarchy_parent ''1221'')
        \<noteq> sum_list (map closing_debit (hierarchy_children ''1221''))
   \<and> errors (check_parent ''A'' ''2024'' (val_balance_df (hierarchy_example ''1221''))
        (''1221'', hierarchy_children ''1221'') no_results) = errors no_results
   \<and> build_subject_tree (val_balance_df (hierarchy_example ''1221''))
        = [(''1221'', hierarchy_children ''1221'')]
   \<and> errors (fst (validate_hierarchy_correctness (hierarchy_example ''1221''))) = []
   \<and> passed (fst (validate_hierarchy_correctness (hierarchy_example ''1221''))) = 3
   \<and> errors (fst (validate_hierarchy_correctness (hierarchy_example ''2221''))) = []
   \<and> passed (fst (validate_hierarchy_correctness (hierarchy_example ''2221''))) = 3
   \<and> errors (fst (validate_hierarchy_correctness (hierarchy_mismatch_example ''1221'')))
        = [HierarchyCorrectness ''1221'' Asset ''A'' ''2024'' ClosingNet 90 100 (- 10)]
   \<and> passed (fst (validate_hierarchy_correctness (hierarchy_mismatch_example ''1221''))) = 2
   \<and> failed (fst (validate_hierarchy_correctness (hierarchy_example ''9221''))) = 4
   \<and> passed (fst (validate_hierarchy_correctness (hierarchy_example ''9221''))) = 2"
proof -
  have f: "find (\<lambda>r. subject_code r = Some ''1221'') (val_balance_df (hierarchy_example ''1221''))
     = Some (hierarchy_parent ''1221'')" by code_simp
  have k: "validator_get_account_type (Some ''1221'') \<noteq> Unknown" by code_simp
  have a: "spec_stage_nets_agree (validator_get_account_type (Some ''1221''))
        (hierarchy_parent ''1221'') (hierarchy_children ''1221'')" by code_simp
  have d: "closing_debit (hierarchy_parent ''1221'')
        \<noteq> sum_list (map closing_debit (hierarchy_children ''1221''))" by code_simp
  have t: "spec_tree (val_balance_df (hierarchy_example ''1221''))
        = [(''1221'', hierarchy_children ''1221'')]" by code_simp
  have e1: "spec_hierarchy_errors (val_balance_df (hierarchy_example ''1221'')) = []"
    by code_simp
  have p1: "spec_hierarchy_passes (val_balance_df (hierarchy_example ''1221'')) = 3"
    by code_simp
  have e2: "spec_hierarchy_errors (val_balance_df (hierarchy_example ''2221'')) = []"
    by code_simp
  have p2: "spec_hierarchy_passes (val_balance_df (hierarchy_example ''2221'')) = 3"
    by code_simp
  have e3: "spec_hierarchy_errors (val_balance_df (hierarchy_mismatch_example ''1221''))
        = [HierarchyCorrectness ''1221'' Asset ''A'' ''2024'' ClosingNet 90 100 (- 10)]"
    by code_simp
  have p3: "spec_hierarchy_passes (val_balance_df (hierarchy_mismatch_example ''1221'')) = 2"
    by code_simp
  have e4: "length (spec_hierarchy_errors (val_balance_df (hierarchy_example ''9221''))) = 4"
    by code_simp
  have p4: "spec_hierarchy_passes (val_balance_df (hierarchy_example ''9221'')) = 2"
    by code_simp
  from hierarchy_reconciliation_spec
         [where self = "hierarchy_example ''1221''"
            and slice = "val_balance_df (hierarchy_example ''1221'')"
            and p = "''1221''" and parent = "hierarchy_parent ''1221''"
            and children = "hierarchy_children ''1221''"
            and co = "''A''" and pe = "''2024''" and res = no_results] f k a t e1 p1
  have r1: "errors (check_parent ''A'' ''2024'' (val_balance_df (hierarchy_example ''1221''))
        (''1221'', hierarchy_children ''1221'') no_results) = errors no_results
     \<and> build_subject_tree (val_balance_df (hierarchy_example ''1221''))
        = [(''1221'', hierarchy_children ''1221'')]
     \<and> errors (fst (validate_hierarchy_correctness (hierarchy_example ''1221''))) = []
     \<and> passed (fst (validate_hierarchy_correctness (hierarchy_example ''1221''))) = 3"
    by simp
  from hierarchy_reconciliation_spec [where self = "hierarchy_example ''2221''"] e2 p2
  have r2: "errors (fst (validate_hierarchy_correctness (hierarchy_example ''2221''))) = []
     \<and> passed (fst (validate_hierarchy_correctness (hierarchy_example ''2221''))) = 3"
    by simp
  from hierarchy_reconciliation_spec [where self = "hierarchy_mismatch_example ''1221''"] e3 p3
  have r3: "errors (fst (validate_hierarchy_correctness (hierarchy_mismatch_example ''1221'')))
        = [HierarchyCorrectness ''1221'' Asset ''A'' ''2024'' ClosingNet 90 100 (- 10)]
     \<and> passed (fst (validate_hierarchy_correctness (hierarchy_mismatch_example ''1221''))) = 2"
    by simp
  from hierarchy_reconciliation_spec [where self = "hierarchy_example ''9221''"] e4 p4
  have r4: "failed (fst (validate_hierarchy_correctness (hierarchy_example ''9221''))) = 4
     \<and> passed (fst (validate_hierarchy_correctness (hierarchy_example ''9221''))) = 2"
    by simp
  from f k a d r1 r2 r3 r4 show ?thesis by blast
qed


subsection \<open>Voucher reconciliation\<close>

lemma check_voucher_row_eq:
  "check_voucher_row vb res =
     (if voucher_mismatch vb
      then res\<lparr>errors := errors res @ [spec_voucher_error vb], failed := failed res + 1\<rparr>
      else res\<lparr>passed := passed res + 1\<rparr>)"
  by (simp add: check_voucher_row_def voucher_mismatch_def spec_voucher_error_def
        tolerance_def Let_def)

lemma fold_check_voucher_row:
  "fold check_voucher_row vbs res =
     res\<lparr>passed := passed res + length (filter (\<lambda>vb. \<not> voucher_mismatch vb) vbs),
         failed := failed res + length (filter voucher_mismatch vbs),
         errors := errors res @ map spec_voucher_error (filter voucher_mismatch vbs)\<rparr>"
  by (induction vbs arbitrary: res) (simp_all add: check_voucher_row_eq)

lemma merged_rows_mem:
  "(v, b) \<in> set (merged_rows to_int self) \<longleftrightarrow>
     v \<in> set (voucher_summary_of to_int (voucher_df self))
     \<and> b \<in> set (val_balance_df self)
     \<and> company b = summary_company v
     \<and> subject_code b = Some (summary_code v)
     \<and> summary_year v = year b
     \<and> (year b = 2024 \<or> year b = 2025)"
proof
  assume "(v, b) \<in> set (merged_rows to_int self)"
  then show "v \<in> set (voucher_summary_of to_int (voucher_df self))
     \<and> b \<in> set (val_balance_df self)
     \<and> company b = summary_company v
     \<and> subject_code b = Some (summary_code v)
     \<and> summary_year v = year b
     \<and> (year b = 2024 \<or> year b = 2025)"
    by (auto simp: merged_rows_def Let_def)
next
  assume r: "v \<in> set (voucher_summary_of to_int (voucher_df self))
     \<and> b \<in> set (val_balance_df self)
     \<and> company b = summary_company v
     \<and> subject_code b = Some (summary_code v)
     \<and> summary_year v = year b
     \<and> (year b = 2024 \<or> year b = 2025)"
  then have "py_str (subject_code b)
      \<in> set (map summary_code (voucher_summary_of to_int (voucher_df self)))"
    by (simp add: py_str_def)
  with r have "b \<in> set (filter (\<lambda>b. company b = summary_company v
                                    \<and> subject_code b = Some (summary_code v))
             (filter (\<lambda>b. py_str (subject_code b)
                  \<in> set (map summary_code (voucher_summary_of to_int (voucher_df self))))
                (val_balance_df self)))"
    by simp
  with r show "(v, b) \<in> set (merged_rows to_int self)"
    unfolding merged_rows_def Let_def set_filter set_concat set_map
    by fastforce
qed

text \<open>
  C7 (as amended). The pairs compared are exactly the pairs of a voucher summary row and
  a balance row with the same company and code whose fiscal year equals the balance
  row's year and is 2024 or 2025. Each such pair is compared once: it fails when the
  summed voucher debit or credit differs from the period debit or credit by more than
  0.01, and passes otherwise.
\<close>

theorem voucher_reconciliation_compares:
  "((v, b) \<in> set (merged_rows to_int self) \<longleftrightarrow>
     v \<in> set (voucher_summary_of to_int (voucher_df self))
     \<and> b \<in> set (val_balance_df self)
     \<and> company b = summary_company v
     \<and> subject_code b = Some (summary_code v)
     \<and> summary_year v = year b
     \<and> (year b = 2024 \<or> year b = 2025))
   \<and> errors (fst (validate_voucher_reconciliation to_int self))
       = map spec_voucher_error (filter voucher_mismatch (merged_rows to_int self))
   \<and> failed (fst (validate_voucher_reconciliation to_int self))
       = length (filter voucher_mismatch (merged_rows to_int self))
   \<and> passed (fst (validate_voucher_reconciliation to_int self))
       = length (filter (\<lambda>vb. \<not> voucher_mismatch vb) (merged_rows to_int self))"
  by (simp add: merged_rows_mem validate_voucher_reconciliation_def Let_def
        fold_check_voucher_row no_results_def)

theorem voucher_reconciliation_compares_witness:
  "(voucher_summary_of example_to_int (voucher_df voucher_example) ! 0,
      val_balance_df voucher_example ! 1)
     \<in> set (merged_rows example_to_int voucher_example)
   \<and> summary_debit (voucher_summary_of example_to_int (voucher_df voucher_example) ! 0) = 12000
   \<and> passed (fst (validate_voucher_reconciliation example_to_int voucher_example)) = 1
   \<and> failed (fst (validate_voucher_reconciliation example_to_int voucher_example)) = 0"
proof -
  have r: "voucher_summary_of example_to_int (voucher_df voucher_example) ! 0
       \<in> set (voucher_summary_of example_to_int (voucher_df voucher_example))
     \<and> val_balance_df voucher_example ! 1 \<in> set (val_balance_df voucher_example)
     \<and> company (val_balance_df voucher_example ! 1)
         = summary_company (voucher_summary_of example_to_int (voucher_df voucher_example) ! 0)
     \<and> subject_code (val_balance_df voucher_example ! 1)
         = Some (summary_code (voucher_summary_of example_to_int (voucher_df voucher_example) ! 0))
     \<and> summary_year (voucher_summary_of example_to_int (voucher_df voucher_example) ! 0)
         = year (val_balance_df voucher_example ! 1)
     \<and> (year (val_balance_df voucher_example ! 1) = 2024
        \<or> year (val_balance_df voucher_example ! 1) = 2025)"
    by code_simp
  have d: "summary_debit (voucher_summary_of example_to_int (voucher_df voucher_example) ! 0)
       = 12000" by code_simp
  have p: "length (filter (\<lambda>vb. \<not> voucher_mismatch vb)
             (merged_rows example_to_int voucher_example)) = 1" by code_simp
  have f: "length (filter voucher_mismatch (merged_rows example_to_int voucher_example)) = 0"
    by code_simp
  from voucher_reconciliation_compares
         [of "voucher_summary_of example_to_int (voucher_df voucher_example) ! 0"
             "val_balance_df voucher_example ! 1" example_to_int voucher_example] r d p f
  show ?thesis by simp
qed

text \<open>
  C7 as stated fails: the year 2023 is present in both sources, the summary row and the
  balance row of 2023 agree on company, code and year and differ by 500 in the debit,
  yet the pair is not among the compared rows and no failure is reported.
\<close>

theorem voucher_year_2023_not_compared:
  "voucher_summary_of example_to_int (voucher_df voucher_example) ! 1
       \<in> set (voucher_summary_of example_to_int (voucher_df voucher_example))
   \<and> val_balance_df voucher_example ! 0 \<in> set (val_balance_df voucher_example)
   \<and> company (val_balance_df voucher_example ! 0)
       = summary_company (voucher_summary_of example_to_int (voucher_df voucher_example) ! 1)
   \<and> subject_code (val_balance_df voucher_example ! 0)
       = Some (summary_code (voucher_summary_of example_to_int (voucher_df voucher_example) ! 1))
   \<and> summary_year (voucher_summary_of example_to_int (voucher_df voucher_example) ! 1) = 2023
   \<and> year (val_balance_df voucher_example ! 0) = 2023
   \<and> voucher_mismatch (voucher_summary_of example_to_int (voucher_df voucher_example) ! 1,
        val_balance_df voucher_example ! 0)
   \<and> (voucher_summary_of example_to_int (voucher_df voucher_example) ! 1,
        val_balance_df voucher_example ! 0)
       \<notin> set (merged_rows example_to_int voucher_example)
   \<and> fst (validate_voucher_reconciliation example_to_int voucher_example)
       = \<lparr>passed = 1, failed = 0, errors = []\<rparr>"
  by code_simp


end
